theory Spec2Isabelle
  imports Complex_Main "HOL-Library.Word" "HOL-Library.Multiset"
begin

unbundle bit_operations_syntax

section \<open>Python values used by replayer.py\<close>

text \<open>
  A Python \<open>str\<close> is a sequence of Unicode code points, so it is modelled as a list of
  naturals; \<open>py\<close> embeds an ASCII literal. Python floats are modelled as exact reals
  (rounding, infinities and NaN are not represented).
\<close>

type_synonym pystr = "nat list"

definition py :: "string \<Rightarrow> pystr" where
  "py s = map of_char s"

datatype pyexn =
    TypeError
  | KeyError pystr
  | ValueError
  | AttributeError
  | FileNotFoundError pystr
  | JSONDecodeError

text \<open>
  The parts of Python's Unicode tables and of its \<open>int(str)\<close> parser that the source
  relies on are parameters: the ASCII behaviour is written out below, everything beyond
  ASCII is delegated to these functions.
\<close>

record builtins =
  isalpha_u :: "nat \<Rightarrow> bool"
  lower_u :: "pystr \<Rightarrow> pystr"
  upper_u :: "pystr \<Rightarrow> pystr"
  int_str :: "pystr \<Rightarrow> int option"

definition is_ascii :: "pystr \<Rightarrow> bool" where
  "is_ascii s = list_all (\<lambda>c. c < 128) s"

definition isalpha_char :: "builtins \<Rightarrow> nat \<Rightarrow> bool" where
  "isalpha_char U c =
     (if c < 128 then (65 \<le> c \<and> c \<le> 90) \<or> (97 \<le> c \<and> c \<le> 122) else isalpha_u U c)"

definition isalpha :: "builtins \<Rightarrow> pystr \<Rightarrow> bool" where
  \<comment> \<open>\<open>str.isalpha()\<close>: at least one character and all of them alphabetic.\<close>
  "isalpha U s = (s \<noteq> [] \<and> list_all (isalpha_char U) s)"

definition lower_char :: "nat \<Rightarrow> nat" where
  "lower_char c = (if 65 \<le> c \<and> c \<le> 90 then c + 32 else c)"

definition upper_char :: "nat \<Rightarrow> nat" where
  "upper_char c = (if 97 \<le> c \<and> c \<le> 122 then c - 32 else c)"

definition lower :: "builtins \<Rightarrow> pystr \<Rightarrow> pystr" where
  "lower U s = (if is_ascii s then map lower_char s else lower_u U s)"

definition upper :: "builtins \<Rightarrow> pystr \<Rightarrow> pystr" where
  "upper U s = (if is_ascii s then map upper_char s else upper_u U s)"

fun digits :: "nat \<Rightarrow> pystr" where
  "digits n = (if n < 10 then [48 + n] else digits (n div 10) @ [48 + n mod 10])"

declare digits.simps [simp del]

definition str_int :: "int \<Rightarrow> pystr" where
  \<comment> \<open>\<open>str(i)\<close> for a Python int.\<close>
  "str_int i = (if i < 0 then 45 # digits (nat (- i)) else digits (nat i))"

section \<open>Event model of the recorder\<close>

text \<open>The dataclasses \<open>MouseEvent\<close> and \<open>KeyboardEvent\<close>; a field left at \<open>None\<close> is \<open>None\<close>.\<close>

record MouseEvent =
  me_type :: pystr
  me_x :: "int option"
  me_y :: "int option"
  me_button :: "pystr option"
  me_pressed :: "bool option"
  me_dx :: "int option"
  me_dy :: "int option"
  me_timestamp :: "real option"

record KeyboardEvent =
  ke_type :: pystr
  ke_key :: "pystr option"
  ke_pressed :: "bool option"
  ke_timestamp :: "real option"

definition MouseEvent0 :: "pystr \<Rightarrow> MouseEvent" where
  \<comment> \<open>\<open>MouseEvent(type=t)\<close> with every other field at its default.\<close>
  "MouseEvent0 t = \<lparr>me_type = t, me_x = None, me_y = None, me_button = None, me_pressed = None,
     me_dx = None, me_dy = None, me_timestamp = None\<rparr>"

text \<open>
  A key delivered by the keyboard listener: a \<open>KeyCode\<close> (with its \<open>char\<close> and \<open>vk\<close>, either of
  which may be \<open>None\<close>), a member of the \<open>Key\<close> enumeration (identified by its name), or any
  other object (identified by its \<open>str()\<close>).
\<close>

datatype key = KeyCode "pystr option" "int option" | Key pystr | OtherKey pystr

section \<open>BackgroundRecorder\<close>

text \<open>What the recorder writes with \<open>json.dump\<close> in \<open>save_recording\<close>.\<close>

record saved_file =
  sf_name :: pystr
  sf_mouse_events :: "MouseEvent list"
  sf_keyboard_events :: "KeyboardEvent list"
  sf_total_duration :: real
  sf_record_date :: pystr
  sf_mouse_events_count :: nat
  sf_keyboard_events_count :: nat
  sf_recording_mode :: pystr

datatype rec_message =
    MsgRecordingStarted pystr pystr
  | MsgRecordingSaved pystr
  | MsgRecordingStopped real nat nat
  | ToastRecordingStopped real nat nat

text \<open>The readings of the clocks at the moment of a call.\<close>

record clocks =
  perf_counter :: real
  wall_time :: real
  now_stamp :: pystr
  now_hms :: pystr
  now_iso :: pystr

record recorder =
  mouse_events :: "MouseEvent list"
  keyboard_events :: "KeyboardEvent list"
  start_time :: "real option"
  recording :: bool
  filename :: "pystr option"
  last_mouse_position :: "(int \<times> int) option"
  record_start_time :: "real option"
  total_duration :: real
  routes_out :: "saved_file list"
  rec_console :: "rec_message list"

definition recorder_init :: recorder where
  "recorder_init = \<lparr>mouse_events = [], keyboard_events = [], start_time = None,
     recording = False, filename = None, last_mouse_position = None,
     record_start_time = None, total_duration = 0, routes_out = [], rec_console = []\<rparr>"

definition start_recording :: "clocks \<Rightarrow> recorder \<Rightarrow> recorder" where
  "start_recording C R =
     (if recording R then R
      else R\<lparr>mouse_events := [], keyboard_events := [],
             start_time := Some (perf_counter C),
             record_start_time := Some (wall_time C),
             filename := Some (py ''replay_'' @ now_stamp C @ py ''.json''),
             rec_console := rec_console R @
               [MsgRecordingStarted (now_hms C) (py ''replay_'' @ now_stamp C @ py ''.json'')],
             recording := True,
             last_mouse_position := None\<rparr>)"

definition save_recording :: "clocks \<Rightarrow> pystr \<Rightarrow> recorder \<Rightarrow> recorder" where
  "save_recording C fname R =
     R\<lparr>routes_out := routes_out R @
         [\<lparr>sf_name = fname, sf_mouse_events = mouse_events R,
           sf_keyboard_events = keyboard_events R,
           sf_total_duration = total_duration R, sf_record_date = now_iso C,
           sf_mouse_events_count = length (mouse_events R),
           sf_keyboard_events_count = length (keyboard_events R),
           sf_recording_mode = py ''relative_mouse''\<rparr>],
       rec_console := rec_console R @ [MsgRecordingSaved fname]\<rparr>"

definition stop_recording :: "clocks \<Rightarrow> recorder \<Rightarrow> pyexn + recorder" where
  "stop_recording C R =
     (if \<not> recording R then Inr R
      else case start_time R of
        None \<Rightarrow> Inl TypeError
      | Some t0 \<Rightarrow>
         (case filename R of
            None \<Rightarrow> Inl TypeError
          | Some fname \<Rightarrow>
             (let R1 = R\<lparr>recording := False, total_duration := perf_counter C - t0\<rparr>;
                  R2 = save_recording C fname R1
              in case record_start_time R2 of
                   None \<Rightarrow> Inl TypeError
                 | Some w0 \<Rightarrow>
                    Inr (R2\<lparr>rec_console := rec_console R2 @
                      [MsgRecordingStopped (wall_time C - w0)
                         (length (mouse_events R2)) (length (keyboard_events R2)),
                       ToastRecordingStopped (wall_time C - w0)
                         (length (mouse_events R2)) (length (keyboard_events R2))]\<rparr>))))"

definition on_mouse_move :: "clocks \<Rightarrow> recorder \<Rightarrow> int \<Rightarrow> int \<Rightarrow> pyexn + recorder" where
  "on_mouse_move C R x y =
     (if \<not> recording R then Inr R
      else case start_time R of
        None \<Rightarrow> Inl TypeError
      | Some t0 \<Rightarrow>
         (let timestamp = perf_counter C - t0;
              R1 = (case last_mouse_position R of
                      None \<Rightarrow> R
                    | Some (lx, ly) \<Rightarrow>
                       (let dx = x - lx; dy = y - ly
                        in if dx \<noteq> 0 \<or> dy \<noteq> 0
                           then R\<lparr>mouse_events := mouse_events R @
                                  [(MouseEvent0 (py ''move_relative''))
                                     \<lparr>me_dx := Some dx, me_dy := Some dy,
                                      me_timestamp := Some timestamp\<rparr>]\<rparr>
                           else R))
          in Inr (R1\<lparr>last_mouse_position := Some (x, y)\<rparr>)))"

definition on_mouse_click ::
  "clocks \<Rightarrow> recorder \<Rightarrow> int \<Rightarrow> int \<Rightarrow> pystr \<Rightarrow> bool \<Rightarrow> pyexn + recorder" where
  \<comment> \<open>\<open>button\<close> is the \<open>name\<close> of the button object passed by the listener.\<close>
  "on_mouse_click C R x y button pressed =
     (if \<not> recording R then Inr R
      else case start_time R of
        None \<Rightarrow> Inl TypeError
      | Some t0 \<Rightarrow>
         Inr (R\<lparr>mouse_events := mouse_events R @
                [(MouseEvent0 (py ''click''))
                   \<lparr>me_button := Some button, me_pressed := Some pressed,
                    me_timestamp := Some (perf_counter C - t0)\<rparr>]\<rparr>))"

definition on_mouse_scroll ::
  "clocks \<Rightarrow> recorder \<Rightarrow> int \<Rightarrow> int \<Rightarrow> int \<Rightarrow> int \<Rightarrow> pyexn + recorder" where
  "on_mouse_scroll C R x y dx dy =
     (if \<not> recording R then Inr R
      else case start_time R of
        None \<Rightarrow> Inl TypeError
      | Some t0 \<Rightarrow>
         Inr (R\<lparr>mouse_events := mouse_events R @
                [(MouseEvent0 (py ''scroll''))
                   \<lparr>me_dx := Some dx, me_dy := Some dy,
                    me_timestamp := Some (perf_counter C - t0)\<rparr>]\<rparr>))"

definition russian_to_english :: "int \<Rightarrow> pystr option" where
  "russian_to_english = map_of
     [(192, py ''a''), (193, py ''b''), (194, py ''c''), (195, py ''d''), (196, py ''e''),
      (197, py ''f''), (198, py ''g''), (199, py ''h''), (200, py ''i''), (201, py ''j''),
      (202, py ''k''), (203, py ''l''), (204, py ''m''), (205, py ''n''), (206, py ''o''),
      (207, py ''p''), (208, py ''q''), (209, py ''r''), (210, py ''s''), (211, py ''t''),
      (212, py ''u''), (213, py ''v''), (214, py ''w''), (215, py ''x''), (216, py ''y''),
      (217, py ''z''), (218, py ''[''), (219, py '']''), (220, [92]), (221, py '';''),
      (222, [39]), (223, [96])]"

definition keycode_repr :: "int option \<Rightarrow> pystr" where
  \<comment> \<open>The f-string \<open>f"KeyCode({vk})"\<close>; \<open>None\<close> formats as \<open>None\<close>.\<close>
  "keycode_repr vk =
     py ''KeyCode('' @ (case vk of None \<Rightarrow> py ''None'' | Some v \<Rightarrow> str_int v) @ py '')''"

definition char_is_alpha :: "builtins \<Rightarrow> pystr option \<Rightarrow> bool" where
  \<comment> \<open>\<open>key.char and key.char.isalpha()\<close>: \<open>None\<close> and the empty string are false.\<close>
  "char_is_alpha U c = (case c of None \<Rightarrow> False | Some s \<Rightarrow> s \<noteq> [] \<and> isalpha U s)"

definition key_char_fallback :: "pystr option \<Rightarrow> int option \<Rightarrow> pystr" where
  \<comment> \<open>\<open>key.char if key.char else f"KeyCode({key.vk})"\<close>\<close>
  "key_char_fallback c vk = (case c of
       None \<Rightarrow> keycode_repr vk
     | Some s \<Rightarrow> if s \<noteq> [] then s else keycode_repr vk)"

fun key_to_string :: "builtins \<Rightarrow> key \<Rightarrow> pyexn + pystr" where
  "key_to_string U (KeyCode c vk) =
     (if char_is_alpha U c then
        (case vk of
           None \<Rightarrow> Inl TypeError
         | Some vk_code \<Rightarrow>
            if 65 \<le> vk_code \<and> vk_code \<le> 90 then Inr (lower U [nat vk_code])
            else if vk_code \<ge> 192 \<and> vk_code \<le> 255 then
              Inr (case russian_to_english vk_code of
                     Some s \<Rightarrow> s
                   | None \<Rightarrow> keycode_repr (Some vk_code))
            else Inr (key_char_fallback c vk))
      else Inr (key_char_fallback c vk))"
| "key_to_string U (Key nm) =
     (if Key nm = Key (py ''shift'') then Inr (py ''shift_l'')
      else if Key nm = Key (py ''ctrl'') then Inr (py ''ctrl_l'')
      else if Key nm = Key (py ''alt'') then Inr (py ''alt_l'')
      else Inr nm)"
| "key_to_string U (OtherKey s) = Inr s"

definition Key_f9 :: key where "Key_f9 = Key (py ''f9'')"
definition Key_f10 :: key where "Key_f10 = Key (py ''f10'')"

definition on_key_press :: "builtins \<Rightarrow> clocks \<Rightarrow> recorder \<Rightarrow> key \<Rightarrow> pyexn + recorder" where
  "on_key_press U C R k =
     (if \<not> recording R then Inr R
      else if k = Key_f9 \<or> k = Key_f10 then Inr R
      else case start_time R of
        None \<Rightarrow> Inl TypeError
      | Some t0 \<Rightarrow>
         (case key_to_string U k of
            Inl e \<Rightarrow> Inl e
          | Inr key_str \<Rightarrow>
             Inr (R\<lparr>keyboard_events := keyboard_events R @
                    [\<lparr>ke_type = py ''press'', ke_key = Some key_str, ke_pressed = Some True,
                      ke_timestamp = Some (perf_counter C - t0)\<rparr>]\<rparr>)))"

definition on_key_release :: "builtins \<Rightarrow> clocks \<Rightarrow> recorder \<Rightarrow> key \<Rightarrow> pyexn + recorder" where
  "on_key_release U C R k =
     (if \<not> recording R then Inr R
      else if k = Key_f9 \<or> k = Key_f10 then Inr R
      else case start_time R of
        None \<Rightarrow> Inl TypeError
      | Some t0 \<Rightarrow>
         (case key_to_string U k of
            Inl e \<Rightarrow> Inl e
          | Inr key_str \<Rightarrow>
             Inr (R\<lparr>keyboard_events := keyboard_events R @
                    [\<lparr>ke_type = py ''release'', ke_key = Some key_str, ke_pressed = Some False,
                      ke_timestamp = Some (perf_counter C - t0)\<rparr>]\<rparr>)))"

text \<open>
  The notifications of the keyboard listener, each with the clock readings at its delivery,
  and their delivery in sequence; an exception raised by a callback ends the listener.
\<close>

datatype key_notification = Press clocks key | Release clocks key

fun notified_key :: "key_notification \<Rightarrow> key" where
  "notified_key (Press C k) = k"
| "notified_key (Release C k) = k"

fun on_key :: "builtins \<Rightarrow> recorder \<Rightarrow> key_notification \<Rightarrow> pyexn + recorder" where
  "on_key U R (Press C k) = on_key_press U C R k"
| "on_key U R (Release C k) = on_key_release U C R k"

fun deliver_keys :: "builtins \<Rightarrow> recorder \<Rightarrow> key_notification list \<Rightarrow> pyexn + recorder" where
  "deliver_keys U R [] = Inr R"
| "deliver_keys U R (n # ns) =
     (case on_key U R n of Inl e \<Rightarrow> Inl e | Inr R' \<Rightarrow> deliver_keys U R' ns)"

text \<open>Pointer positions delivered in sequence, each with the clock readings at its delivery.\<close>

fun deliver_moves :: "recorder \<Rightarrow> (clocks \<times> int \<times> int) list \<Rightarrow> pyexn + recorder" where
  "deliver_moves R [] = Inr R"
| "deliver_moves R ((C, x, y) # ps) =
     (case on_mouse_move C R x y of Inl e \<Rightarrow> Inl e | Inr R' \<Rightarrow> deliver_moves R' ps)"

section \<open>Recordings as the player reads them\<close>

text \<open>
  \<open>json.load\<close> gives the player plain dictionaries. The value of a field of an event is any
  JSON value. The \<open>timestamp\<close> of an event is kept apart from the other fields: it is absent
  or a number, so that the order used by \<open>sorted\<close> is the order of the reals (a timestamp
  of another JSON type is outside the input type of this model).
\<close>

datatype json =
    JNull
  | JBool bool
  | JInt int
  | JFloat real
  | JStr pystr
  | JArr "json list"
  | JObj "(pystr \<times> json) list"

record event_data =
  ev_timestamp :: "real option"
  ev_fields :: "pystr \<Rightarrow> json option"

datatype source = Mouse | Keyboard

text \<open>
  The top-level dictionary of a recording file: each of the four keys the player reads is
  present or absent (a present key of the wrong JSON type is outside the input type).
\<close>

record replay_data =
  rd_mouse_events :: "event_data list option"
  rd_keyboard_events :: "event_data list option"
  rd_total_duration :: "real option"
  rd_record_date :: "pystr option"

datatype file_content = Unparseable | Parsed replay_data

type_synonym filesystem = "pystr \<Rightarrow> file_content option"

subsection \<open>Operators of Python on JSON values\<close>

fun truthy :: "json \<Rightarrow> bool" where
  "truthy JNull = False"
| "truthy (JBool b) = b"
| "truthy (JInt i) = (i \<noteq> 0)"
| "truthy (JFloat r) = (r \<noteq> 0)"
| "truthy (JStr s) = (s \<noteq> [])"
| "truthy (JArr xs) = (xs \<noteq> [])"
| "truthy (JObj kvs) = (kvs \<noteq> [])"

fun ne_zero :: "json \<Rightarrow> bool" where
  \<comment> \<open>\<open>v != 0\<close>\<close>
  "ne_zero (JBool b) = b"
| "ne_zero (JInt i) = (i \<noteq> 0)"
| "ne_zero (JFloat r) = (r \<noteq> 0)"
| "ne_zero v = True"

fun mul_float :: "json \<Rightarrow> real \<Rightarrow> pyexn + real" where
  \<comment> \<open>\<open>v * f\<close> for a float \<open>f\<close>: defined on numbers (a bool is an int), \<open>TypeError\<close> otherwise.\<close>
  "mul_float (JInt i) f = Inr (real_of_int i * f)"
| "mul_float (JFloat r) f = Inr (r * f)"
| "mul_float (JBool b) f = Inr ((if b then 1 else 0) * f)"
| "mul_float v f = Inl TypeError"

fun as_c_integer :: "json \<Rightarrow> int \<Rightarrow> pyexn + int" where
  \<comment> \<open>\<open>v * k\<close> stored in an integer field of a ctypes structure: only an int (or bool)
      product is accepted, every other value or product raises \<open>TypeError\<close>.\<close>
  "as_c_integer (JInt i) k = Inr (i * k)"
| "as_c_integer (JBool b) k = Inr ((if b then 1 else 0) * k)"
| "as_c_integer v k = Inl TypeError"

definition int_trunc :: "real \<Rightarrow> int" where
  \<comment> \<open>\<open>int(x)\<close> for a float: truncation toward zero.\<close>
  "int_trunc x = (if x \<ge> 0 then \<lfloor>x\<rfloor> else \<lceil>x\<rceil>)"

section \<open>The input structures and the world the player acts on\<close>

text \<open>
  The ctypes structures passed to \<open>SendInput\<close>. \<open>c_long\<close> and \<open>c_ulong\<close> are 32 bits wide on
  Windows, \<open>c_ushort\<close> is 16 bits; ctypes stores a Python int in such a field modulo the
  width. The \<open>dwExtraInfo\<close> pointer is always null and left out.
\<close>

record MOUSEINPUT =
  mi_dx :: "32 word"
  mi_dy :: "32 word"
  mouseData :: "32 word"
  mi_dwFlags :: "32 word"
  mi_time :: "32 word"

record KEYBDINPUT =
  wVk :: "16 word"
  wScan :: "16 word"
  ki_dwFlags :: "32 word"
  ki_time :: "32 word"

datatype INPUT = INPUT_mi "32 word" MOUSEINPUT | INPUT_ki "32 word" KEYBDINPUT

datatype play_message =
    MsgLoaded pystr
  | MsgEventCount nat
  | MsgDuration real
  | MsgRecordDate pystr
  | MsgSensitivity real
  | MsgInputMode
  | MsgCooldown real
  | MsgStart
  | MsgProgress nat nat
  | MsgDone nat
  | MsgUnknownKey pystr
  | MsgMouseError pyexn
  | MsgKeyboardError json pyexn

text \<open>
  The world outside the player: the monotonic clock, the \<open>INPUT\<close> structures handed to
  \<open>SendInput\<close>, the lines printed, the arguments of the calls of \<open>time.sleep\<close>, and the
  events handed to one of the two handlers (a trace kept for the statements below).
\<close>

record world =
  clock :: real
  sent :: "INPUT list"
  console :: "play_message list"
  slept :: "real list"
  dispatched :: "(source \<times> event_data) list"

text \<open>
  What the operating system contributes: the file system, \<open>MapVirtualKeyA(vk, 0)\<close>, and the
  time that handling one event takes (\<open>0\<close> when injection is instantaneous).
\<close>

record os =
  fs :: filesystem
  MapVirtualKeyA :: "int \<Rightarrow> pyexn + int"
  cost :: "source \<times> event_data \<Rightarrow> real"

definition py_print :: "play_message \<Rightarrow> world \<Rightarrow> world" where
  "py_print m W = W\<lparr>console := console W @ [m]\<rparr>"

definition sleep :: "real \<Rightarrow> world \<Rightarrow> world" where
  "sleep d W = W\<lparr>clock := clock W + d, slept := slept W @ [d]\<rparr>"

definition SendInput :: "INPUT \<Rightarrow> world \<Rightarrow> world" where
  "SendInput i W = W\<lparr>sent := sent W @ [i]\<rparr>"

section \<open>LowLevelMouseController\<close>

definition INPUT_MOUSE :: "32 word" where "INPUT_MOUSE = 0"
definition MOUSEEVENTF_MOVE :: "32 word" where "MOUSEEVENTF_MOVE = 0x0001"
definition MOUSEEVENTF_LEFTDOWN :: "32 word" where "MOUSEEVENTF_LEFTDOWN = 0x0002"
definition MOUSEEVENTF_LEFTUP :: "32 word" where "MOUSEEVENTF_LEFTUP = 0x0004"
definition MOUSEEVENTF_RIGHTDOWN :: "32 word" where "MOUSEEVENTF_RIGHTDOWN = 0x0008"
definition MOUSEEVENTF_RIGHTUP :: "32 word" where "MOUSEEVENTF_RIGHTUP = 0x0010"
definition MOUSEEVENTF_MIDDLEDOWN :: "32 word" where "MOUSEEVENTF_MIDDLEDOWN = 0x0020"
definition MOUSEEVENTF_MIDDLEUP :: "32 word" where "MOUSEEVENTF_MIDDLEUP = 0x0040"
definition MOUSEEVENTF_WHEEL :: "32 word" where "MOUSEEVENTF_WHEEL = 0x0800"

definition move_relative :: "int \<Rightarrow> int \<Rightarrow> world \<Rightarrow> world" where
  "move_relative dx dy W =
     SendInput (INPUT_mi INPUT_MOUSE
       \<lparr>mi_dx = word_of_int dx, mi_dy = word_of_int dy, mouseData = 0,
        mi_dwFlags = MOUSEEVENTF_MOVE, mi_time = 0\<rparr>) W"

definition click :: "json \<Rightarrow> json \<Rightarrow> world \<Rightarrow> world" where
  "click button pressed W =
     (let flags =
        (if button = JStr (py ''left'') then
           Some (if truthy pressed then MOUSEEVENTF_LEFTDOWN else MOUSEEVENTF_LEFTUP)
         else if button = JStr (py ''right'') then
           Some (if truthy pressed then MOUSEEVENTF_RIGHTDOWN else MOUSEEVENTF_RIGHTUP)
         else if button = JStr (py ''middle'') then
           Some (if truthy pressed then MOUSEEVENTF_MIDDLEDOWN else MOUSEEVENTF_MIDDLEUP)
         else None)
      in case flags of
           None \<Rightarrow> W
         | Some fl \<Rightarrow>
             SendInput (INPUT_mi INPUT_MOUSE
               \<lparr>mi_dx = 0, mi_dy = 0, mouseData = 0, mi_dwFlags = fl, mi_time = 0\<rparr>) W)"

definition scroll :: "json \<Rightarrow> json \<Rightarrow> world \<Rightarrow> pyexn + world" where
  "scroll dx dy W =
     (if ne_zero dy then
        (case as_c_integer dy 120 of
           Inl e \<Rightarrow> Inl e
         | Inr m \<Rightarrow>
            Inr (SendInput (INPUT_mi INPUT_MOUSE
              \<lparr>mi_dx = 0, mi_dy = 0, mouseData = word_of_int m,
               mi_dwFlags = MOUSEEVENTF_WHEEL, mi_time = 0\<rparr>) W))
      else Inr W)"

section \<open>LowLevelKeyboardController\<close>

definition INPUT_KEYBOARD :: "32 word" where "INPUT_KEYBOARD = 1"
definition KEYEVENTF_KEYUP :: "32 word" where "KEYEVENTF_KEYUP = 0x0002"
definition KEYEVENTF_SCANCODE :: "32 word" where "KEYEVENTF_SCANCODE = 0x0008"

definition scan_codes :: "pystr \<Rightarrow> int option" where
  "scan_codes = map_of
     [(py ''shift_l'', 0x2A), (py ''shift_r'', 0x36), (py ''ctrl_l'', 0x1D), (py ''ctrl_r'', 0x1D),
      (py ''alt_l'', 0x38), (py ''alt_r'', 0x38),
      (py ''a'', 0x1E), (py ''b'', 0x30), (py ''c'', 0x2E), (py ''d'', 0x20), (py ''e'', 0x12),
      (py ''f'', 0x21), (py ''g'', 0x22), (py ''h'', 0x23), (py ''i'', 0x17), (py ''j'', 0x24),
      (py ''k'', 0x25), (py ''l'', 0x26), (py ''m'', 0x32), (py ''n'', 0x31), (py ''o'', 0x18),
      (py ''p'', 0x19), (py ''q'', 0x10), (py ''r'', 0x13), (py ''s'', 0x1F), (py ''t'', 0x14),
      (py ''u'', 0x16), (py ''v'', 0x2F), (py ''w'', 0x11), (py ''x'', 0x2D), (py ''y'', 0x15),
      (py ''z'', 0x2C),
      (py ''0'', 0x0B), (py ''1'', 0x02), (py ''2'', 0x03), (py ''3'', 0x04), (py ''4'', 0x05),
      (py ''5'', 0x06), (py ''6'', 0x07), (py ''7'', 0x08), (py ''8'', 0x09), (py ''9'', 0x0A),
      (py ''space'', 0x39), (py ''enter'', 0x1C), (py ''esc'', 0x01), (py ''tab'', 0x0F),
      (py ''f1'', 0x3B), (py ''f2'', 0x3C), (py ''f3'', 0x3D), (py ''f4'', 0x3E), (py ''f5'', 0x3F),
      (py ''f6'', 0x40), (py ''f7'', 0x41), (py ''f8'', 0x42), (py ''f9'', 0x43), (py ''f10'', 0x44),
      (py ''f11'', 0x57), (py ''f12'', 0x58),
      (py ''up'', 0x48), (py ''down'', 0x50), (py ''left'', 0x4B), (py ''right'', 0x4D),
      (py ''insert'', 0x52), (py ''delete'', 0x53), (py ''home'', 0x47), (py ''end'', 0x4F),
      (py ''page_up'', 0x49), (py ''page_down'', 0x51),
      (py ''backspace'', 0x0E), (py ''caps_lock'', 0x3A), (py ''num_lock'', 0x45),
      (py ''scroll_lock'', 0x46)]"

definition startswith :: "pystr \<Rightarrow> pystr \<Rightarrow> bool" where
  "startswith s p = (take (length p) s = p)"

definition nonzero_or_None :: "int \<Rightarrow> int option" where
  \<comment> \<open>\<open>scan_code if scan_code != 0 else None\<close>\<close>
  "nonzero_or_None sc = (if sc \<noteq> 0 then Some sc else None)"

definition get_scan_code ::
  "builtins \<Rightarrow> os \<Rightarrow> pystr \<Rightarrow> world \<Rightarrow> pyexn + (int option \<times> world)" where
  "get_scan_code U E key_str W =
     (if startswith key_str (py ''KeyCode('') then
        (case int_str U (butlast (drop 8 key_str)) of
           None \<Rightarrow> Inl ValueError
         | Some vk \<Rightarrow>
            (case MapVirtualKeyA E vk of
               Inl e \<Rightarrow> Inl e
             | Inr scan_code \<Rightarrow> Inr (nonzero_or_None scan_code, W)))
      else
        (case scan_codes (lower U key_str) of
           Some sc \<Rightarrow> Inr (Some sc, W)
         | None \<Rightarrow>
            if length key_str = 1 then
              (case upper U key_str of
                 [c] \<Rightarrow>
                   (case MapVirtualKeyA E (int c) of
                      Inl e \<Rightarrow> Inl e
                    | Inr scan_code \<Rightarrow> Inr (nonzero_or_None scan_code, W))
               | _ \<Rightarrow> Inl TypeError)
            else Inr (None, py_print (MsgUnknownKey key_str) W)))"

definition extended_flag :: "pystr \<Rightarrow> 32 word \<Rightarrow> 32 word" where
  \<comment> \<open>\<open>if key_str in ['ctrl_r', 'alt_r']: flags |= 0x0001\<close>\<close>
  "extended_flag key_str flags =
     (if key_str = py ''ctrl_r'' \<or> key_str = py ''alt_r'' then flags OR 0x0001 else flags)"

definition send_key :: "pystr \<Rightarrow> int \<Rightarrow> 32 word \<Rightarrow> world \<Rightarrow> world" where
  \<comment> \<open>The common tail of \<open>press_key\<close> and \<open>release_key\<close>: build the structure and send it.\<close>
  "send_key key_str scan_code flags W =
     SendInput (INPUT_ki INPUT_KEYBOARD
       \<lparr>wVk = 0, wScan = word_of_int scan_code,
        ki_dwFlags = extended_flag key_str flags, ki_time = 0\<rparr>) W"

definition press_key :: "builtins \<Rightarrow> os \<Rightarrow> json \<Rightarrow> world \<Rightarrow> pyexn + world" where
  \<comment> \<open>A key that is not a string has no \<open>startswith\<close>: \<open>AttributeError\<close>.\<close>
  "press_key U E k W =
     (case k of
        JStr key_str \<Rightarrow>
          (case get_scan_code U E key_str W of
             Inl e \<Rightarrow> Inl e
           | Inr (None, W') \<Rightarrow> Inr W'
           | Inr (Some scan_code, W') \<Rightarrow>
               Inr (send_key key_str scan_code KEYEVENTF_SCANCODE W'))
      | _ \<Rightarrow> Inl AttributeError)"

definition release_key :: "builtins \<Rightarrow> os \<Rightarrow> json \<Rightarrow> world \<Rightarrow> pyexn + world" where
  "release_key U E k W =
     (case k of
        JStr key_str \<Rightarrow>
          (case get_scan_code U E key_str W of
             Inl e \<Rightarrow> Inl e
           | Inr (None, W') \<Rightarrow> Inr W'
           | Inr (Some scan_code, W') \<Rightarrow>
               Inr (send_key key_str scan_code (KEYEVENTF_SCANCODE OR KEYEVENTF_KEYUP) W'))
      | _ \<Rightarrow> Inl AttributeError)"

section \<open>GameplayPlayer\<close>

record player =
  replay_file :: pystr
  cooldown :: real
  sensitivity :: real
  events :: "(source \<times> event_data) list"
  mouse_accumulator :: "(real \<times> real) option"

definition GameplayPlayer :: "pystr \<Rightarrow> real \<Rightarrow> real \<Rightarrow> player" where
  \<comment> \<open>The constructor; the accumulators do not exist until the first pointer motion.\<close>
  "GameplayPlayer file cd sens =
     \<lparr>replay_file = file, cooldown = cd, sensitivity = sens, events = [],
      mouse_accumulator = None\<rparr>"

text \<open>
  A call that can raise after it has acted returns the exception (if any) together with
  the player and the world as they are at that moment.
\<close>

definition load_replay :: "os \<Rightarrow> player \<Rightarrow> world \<Rightarrow> pyexn option \<times> player \<times> world" where
  "load_replay E P W =
     (case fs E (replay_file P) of
        None \<Rightarrow> (Some (FileNotFoundError (replay_file P)), P, W)
      | Some Unparseable \<Rightarrow> (Some JSONDecodeError, P, W)
      | Some (Parsed data) \<Rightarrow>
         (case rd_mouse_events data of
            None \<Rightarrow> (Some (KeyError (py ''mouse_events'')), P, W)
          | Some ms \<Rightarrow>
             (case rd_keyboard_events data of
                None \<Rightarrow> (Some (KeyError (py ''keyboard_events'')), P, W)
              | Some ks \<Rightarrow>
                 (let evs = map (Pair Mouse) ms @ map (Pair Keyboard) ks
                  in case those (map (\<lambda>x. ev_timestamp (snd x)) evs) of
                       None \<Rightarrow> (Some (KeyError (py ''timestamp'')), P, W)
                     | Some keys \<Rightarrow>
                        (let P1 = P\<lparr>events := map snd (sort_key fst (zip keys evs))\<rparr>;
                             W1 = py_print (MsgEventCount (length (events P1)))
                                    (py_print (MsgLoaded (replay_file P1)) W)
                         in case rd_total_duration data of
                              None \<Rightarrow> (Some (KeyError (py ''total_duration'')), P1, W1)
                            | Some d \<Rightarrow>
                               (let W2 = py_print (MsgDuration d) W1;
                                    W3 = (case rd_record_date data of
                                            None \<Rightarrow> W2
                                          | Some r \<Rightarrow> py_print (MsgRecordDate r) W2)
                                in (None, P1,
                                    py_print MsgInputMode
                                      (py_print (MsgSensitivity (sensitivity P1)) W3))))))))"

definition carry :: "real \<Rightarrow> real \<Rightarrow> int \<times> real" where
  \<comment> \<open>One axis of the \<open>move_relative\<close> branch: the accumulator before the event and the
      scaled delta give the integer motion and the accumulator after the event.\<close>
  "carry acc d =
     (let acc1 = acc + d;
          d_int = int_trunc acc1;
          acc2 = acc1 - real_of_int d_int
      in if d_int = 0 \<and> \<bar>acc2\<bar> \<ge> 0.8
         then (let d_int' = (if acc2 > 0 then 1 else - 1)
               in (d_int', acc2 - real_of_int d_int'))
         else (d_int, acc2))"

definition field :: "event_data \<Rightarrow> pystr \<Rightarrow> pyexn + json" where
  \<comment> \<open>\<open>event[k]\<close>\<close>
  "field ev k = (case ev_fields ev k of None \<Rightarrow> Inl (KeyError k) | Some v \<Rightarrow> Inr v)"

definition mouse_event_body ::
  "player \<Rightarrow> world \<Rightarrow> event_data \<Rightarrow> pyexn + (player \<times> world)" where
  \<comment> \<open>The \<open>try\<close> block of \<open>_handle_mouse_event\<close>.\<close>
  "mouse_event_body P W ev =
     (case field ev (py ''type'') of
        Inl e \<Rightarrow> Inl e
      | Inr ty \<Rightarrow>
         if ty = JStr (py ''move_relative'') then
           (case field ev (py ''dx'') of
              Inl e \<Rightarrow> Inl e
            | Inr original_dx \<Rightarrow>
               (case field ev (py ''dy'') of
                  Inl e \<Rightarrow> Inl e
                | Inr original_dy \<Rightarrow>
                   (case mul_float original_dx (sensitivity P) of
                      Inl e \<Rightarrow> Inl e
                    | Inr dx \<Rightarrow>
                       (case mul_float original_dy (sensitivity P) of
                          Inl e \<Rightarrow> Inl e
                        | Inr dy \<Rightarrow>
                           (let (ax, ay) = (case mouse_accumulator P of
                                              None \<Rightarrow> (0, 0)
                                            | Some a \<Rightarrow> a);
                                (dx_int, ax') = carry ax dx;
                                (dy_int, ay') = carry ay dy
                            in Inr (P\<lparr>mouse_accumulator := Some (ax', ay')\<rparr>,
                                    if dx_int \<noteq> 0 \<or> dy_int \<noteq> 0
                                    then move_relative dx_int dy_int W else W))))))
         else if ty = JStr (py ''click'') then
           (case field ev (py ''button'') of
              Inl e \<Rightarrow> Inl e
            | Inr button \<Rightarrow>
               (case field ev (py ''pressed'') of
                  Inl e \<Rightarrow> Inl e
                | Inr pressed \<Rightarrow> Inr (P, click button pressed W)))
         else if ty = JStr (py ''scroll'') then
           (case field ev (py ''dx'') of
              Inl e \<Rightarrow> Inl e
            | Inr dx \<Rightarrow>
               (case field ev (py ''dy'') of
                  Inl e \<Rightarrow> Inl e
                | Inr dy \<Rightarrow>
                   (case scroll dx dy W of
                      Inl e \<Rightarrow> Inl e
                    | Inr W' \<Rightarrow> Inr (P, W'))))
         else Inr (P, W))"

definition handle_mouse_event :: "player \<Rightarrow> world \<Rightarrow> event_data \<Rightarrow> player \<times> world" where
  "handle_mouse_event P W ev =
     (case mouse_event_body P W ev of
        Inr PW \<Rightarrow> PW
      | Inl e \<Rightarrow> (P, py_print (MsgMouseError e) W))"

definition keyboard_event_body ::
  "builtins \<Rightarrow> os \<Rightarrow> world \<Rightarrow> event_data \<Rightarrow> pyexn + world" where
  \<comment> \<open>The \<open>try\<close> block of \<open>_handle_keyboard_event\<close>.\<close>
  "keyboard_event_body U E W ev =
     (case field ev (py ''pressed'') of
        Inl e \<Rightarrow> Inl e
      | Inr pressed \<Rightarrow>
         (case field ev (py ''key'') of
            Inl e \<Rightarrow> Inl e
          | Inr k \<Rightarrow> if truthy pressed then press_key U E k W else release_key U E k W))"

definition handle_keyboard_event ::
  "builtins \<Rightarrow> os \<Rightarrow> world \<Rightarrow> event_data \<Rightarrow> pyexn option \<times> world" where
  \<comment> \<open>The \<open>except\<close> clause formats \<open>event['key']\<close>; when the event has no such field, that
      lookup raises inside the handler and the \<open>KeyError\<close> leaves the method.\<close>
  "handle_keyboard_event U E W ev =
     (case keyboard_event_body U E W ev of
        Inr W' \<Rightarrow> (None, W')
      | Inl e \<Rightarrow>
         (case field ev (py ''key'') of
            Inl e' \<Rightarrow> (Some e', W)
          | Inr k \<Rightarrow> (None, py_print (MsgKeyboardError k e) W)))"

definition dispatch ::
  "builtins \<Rightarrow> os \<Rightarrow> source \<times> event_data \<Rightarrow> player \<Rightarrow> world \<Rightarrow> pyexn option \<times> player \<times> world" where
  \<comment> \<open>The \<open>if event_type == 'mouse'\<close> of the loop: the event goes to one of the two handlers,
      which takes \<open>cost\<close> on the clock.\<close>
  "dispatch U E x P W =
     (let W0 = W\<lparr>dispatched := dispatched W @ [x]\<rparr>
      in if fst x = Mouse then
           (let (P', W') = handle_mouse_event P W0 (snd x)
            in (None, P', W'\<lparr>clock := clock W' + cost E x\<rparr>))
         else
           (let (r, W') = handle_keyboard_event U E W0 (snd x)
            in (r, P, W'\<lparr>clock := clock W' + cost E x\<rparr>)))"

fun play_loop ::
  "builtins \<Rightarrow> os \<Rightarrow> real \<Rightarrow> nat \<Rightarrow> (source \<times> event_data) list \<Rightarrow> nat \<Rightarrow> player \<Rightarrow> world
     \<Rightarrow> pyexn option \<times> nat \<times> player \<times> world" where
  "play_loop U E t_start n_events [] events_played P W = (None, events_played, P, W)"
| "play_loop U E t_start n_events (x # rest) events_played P W =
     (let current_time = clock W - t_start
      in case ev_timestamp (snd x) of
           None \<Rightarrow> (Some (KeyError (py ''timestamp'')), events_played, P, W)
         | Some target_time \<Rightarrow>
            (let W1 = (if current_time < target_time
                       then sleep (target_time - current_time) W else W)
             in case dispatch U E x P W1 of
                  (Some e, P2, W2) \<Rightarrow> (Some e, events_played, P2, W2)
                | (None, P2, W2) \<Rightarrow>
                   (let events_played' = events_played + 1;
                        W3 = (if events_played' mod 100 = 0
                              then py_print (MsgProgress events_played' n_events) W2 else W2)
                    in play_loop U E t_start n_events rest events_played' P2 W3)))"

definition play :: "builtins \<Rightarrow> os \<Rightarrow> player \<Rightarrow> world \<Rightarrow> pyexn option \<times> player \<times> world" where
  "play U E P W =
     (case (if events P = [] then load_replay E P W else (None, P, W)) of
        (Some e, P1, W1) \<Rightarrow> (Some e, P1, W1)
      | (None, P1, W1) \<Rightarrow>
         (let W2 = (if cooldown P1 > 0
                    then py_print MsgStart (sleep (cooldown P1) (py_print (MsgCooldown (cooldown P1)) W1))
                    else W1);
              t_start = clock W2
          in case play_loop U E t_start (length (events P1)) (events P1) 0 P1 W2 of
               (Some e, n, P3, W3) \<Rightarrow> (Some e, P3, W3)
             | (None, n, P3, W3) \<Rightarrow> (None, P3, py_print (MsgDone n) W3)))"

section \<open>Reference values and expected results used in the statements\<close>

definition C0 :: clocks where
  "C0 = \<lparr>perf_counter = 10, wall_time = 1000, now_stamp = py ''2025-01-02_03-04-05'',
     now_hms = py ''03:04:05'', now_iso = py ''2025-01-02T03:04:05''\<rparr>"

definition C1 :: clocks where
  "C1 = \<lparr>perf_counter = 12, wall_time = 1002, now_stamp = py ''2025-01-02_03-04-07'',
     now_hms = py ''03:04:07'', now_iso = py ''2025-01-02T03:04:07''\<rparr>"

definition U0 :: builtins where
  \<comment> \<open>An instance of the parameters: the Cyrillic letters U+0410..U+044F are alphabetic.\<close>
  "U0 = \<lparr>isalpha_u = (\<lambda>c. 1040 \<le> c \<and> c \<le> 1103), lower_u = (\<lambda>s. s), upper_u = (\<lambda>s. s),
     int_str = (\<lambda>s. None)\<rparr>"

definition move_event :: "int \<Rightarrow> int \<Rightarrow> real \<Rightarrow> MouseEvent" where
  "move_event dx dy t = (MouseEvent0 (py ''move_relative''))
      \<lparr>me_dx := Some dx, me_dy := Some dy, me_timestamp := Some t\<rparr>"

fun expected_moves ::
  "real \<Rightarrow> (int \<times> int) option \<Rightarrow> (clocks \<times> int \<times> int) list \<Rightarrow> MouseEvent list" where
  \<comment> \<open>The events a sequence of pointer samples is expected to leave in the stream, given
      the previous position: one per sample that differs from its predecessor.\<close>
  "expected_moves t0 prev [] = []"
| "expected_moves t0 prev ((C, x, y) # ps) =
     (case prev of
        None \<Rightarrow> []
      | Some (lx, ly) \<Rightarrow>
          if x - lx = 0 \<and> y - ly = 0 then []
          else [move_event (x - lx) (y - ly) (perf_counter C - t0)])
     @ expected_moves t0 (Some (x, y)) ps"

definition reserved :: "key \<Rightarrow> bool" where
  "reserved k = (k = Key_f9 \<or> k = Key_f10)"

fun expected_key_event :: "builtins \<Rightarrow> real \<Rightarrow> key_notification \<Rightarrow> KeyboardEvent" where
  "expected_key_event U t0 (Press C k) =
     \<lparr>ke_type = py ''press'',
      ke_key = (case key_to_string U k of Inr s \<Rightarrow> Some s | Inl e \<Rightarrow> None),
      ke_pressed = Some True, ke_timestamp = Some (perf_counter C - t0)\<rparr>"
| "expected_key_event U t0 (Release C k) =
     \<lparr>ke_type = py ''release'',
      ke_key = (case key_to_string U k of Inr s \<Rightarrow> Some s | Inl e \<Rightarrow> None),
      ke_pressed = Some False, ke_timestamp = Some (perf_counter C - t0)\<rparr>"

fun has_vk :: "key \<Rightarrow> bool" where
  \<comment> \<open>The Windows listener always fills in \<open>vk\<close>; without it \<open>key_to_string\<close> can raise.\<close>
  "has_vk (KeyCode c vk) = (vk \<noteq> None)"
| "has_vk k = True"

definition latin_layout_names :: "builtins \<Rightarrow> (pyexn + pystr) list" where
  \<comment> \<open>The canonical names of the 26 letter keys under a Latin layout (codes 65 to 90,
      each with its own letter as \<open>char\<close>), in the order of their codes.\<close>
  "latin_layout_names U =
     map (\<lambda>v. key_to_string U (KeyCode (Some [nat v + 32]) (Some v))) [65..90]"

definition punctuation_names :: "pystr list" where
  "punctuation_names = [py ''['', py '']'', [92], py '';'', [39], [96]]"

definition mk_event :: "real \<Rightarrow> (pystr \<times> json) list \<Rightarrow> event_data" where
  \<comment> \<open>An event dictionary with a timestamp and the listed fields.\<close>
  "mk_event t kvs = \<lparr>ev_timestamp = Some t, ev_fields = map_of kvs\<rparr>"

definition W0 :: world where
  "W0 = \<lparr>clock = 100, sent = [], console = [], slept = [], dispatched = []\<rparr>"

definition wheel_input :: "int \<Rightarrow> INPUT" where
  \<comment> \<open>The structure \<open>scroll\<close> sends for a vertical amount \<open>dy\<close>.\<close>
  "wheel_input dy = INPUT_mi INPUT_MOUSE
     \<lparr>mi_dx = 0, mi_dy = 0, mouseData = word_of_int (dy * 120),
      mi_dwFlags = MOUSEEVENTF_WHEEL, mi_time = 0\<rparr>"

definition timestamp_key :: "source \<times> event_data \<Rightarrow> real" where
  \<comment> \<open>The sort key \<open>x[1]['timestamp']\<close> of an event that has a timestamp.\<close>
  "timestamp_key x = (case ev_timestamp (snd x) of Some t \<Rightarrow> t | None \<Rightarrow> 0)"

definition at_time :: "real \<Rightarrow> event_data \<Rightarrow> bool" where
  "at_time t e = (ev_timestamp e = Some t)"

definition key_before_pointer :: "source \<times> event_data \<Rightarrow> source \<times> event_data \<Rightarrow> bool" where
  \<comment> \<open>A key event followed by a pointer event that carries the same timestamp.\<close>
  "key_before_pointer a b =
     (fst a = Keyboard \<and> fst b = Mouse \<and> ev_timestamp (snd a) = ev_timestamp (snd b))"

definition missing_required :: "replay_data \<Rightarrow> bool" where
  \<comment> \<open>The fields \<open>load_replay\<close> reads without a guard: the two event lists, the timestamp
      of every event, and \<open>total_duration\<close>.\<close>
  "missing_required d =
     (case (rd_mouse_events d, rd_keyboard_events d) of
        (Some ms, Some ks) \<Rightarrow>
           list_ex (\<lambda>e. ev_timestamp e = None) (ms @ ks) \<or> rd_total_duration d = None
      | _ \<Rightarrow> True)"

definition ev_click :: "real \<Rightarrow> event_data" where
  "ev_click t = mk_event t
     [(py ''type'', JStr (py ''click'')), (py ''button'', JStr (py ''left'')),
      (py ''pressed'', JBool True)]"

definition ev_press :: "real \<Rightarrow> pystr \<Rightarrow> event_data" where
  "ev_press t k = mk_event t
     [(py ''type'', JStr (py ''press'')), (py ''key'', JStr k), (py ''pressed'', JBool True)]"

definition d0 :: replay_data where
  \<comment> \<open>A recording with two clicks and one key press that shares the first click's timestamp.\<close>
  "d0 = \<lparr>rd_mouse_events = Some [ev_click 1, ev_click 2],
         rd_keyboard_events = Some [ev_press 1 (py ''a'')],
         rd_total_duration = Some 3, rd_record_date = None\<rparr>"

definition d_no_duration :: replay_data where
  "d_no_duration = d0\<lparr>rd_total_duration := None\<rparr>"

definition E0 :: os where
  "E0 = \<lparr>fs = (\<lambda>p. if p = py ''r.json'' then Some (Parsed d0)
                  else if p = py ''bad.json'' then Some Unparseable
                  else if p = py ''short.json'' then Some (Parsed d_no_duration)
                  else None),
         MapVirtualKeyA = (\<lambda>vk. Inr 0),
         cost = (\<lambda>x. 0)\<rparr>"













definition ev_nokey :: "real \<Rightarrow> event_data" where
  \<comment> \<open>A key event whose dictionary has no \<open>key\<close> entry.\<close>
  "ev_nokey t = mk_event t [(py ''type'', JStr (py ''press'')), (py ''pressed'', JBool True)]"

definition d_nokey :: replay_data where
  \<comment> \<open>A recording with a key event that lacks its \<open>key\<close> at time \<open>0\<close> and a click at time \<open>1\<close>.\<close>
  "d_nokey = \<lparr>rd_mouse_events = Some [ev_click 1],
         rd_keyboard_events = Some [ev_nokey 0],
         rd_total_duration = Some 2, rd_record_date = None\<rparr>"

definition E_nokey :: os where
  "E_nokey = \<lparr>fs = (\<lambda>p. if p = py ''nokey.json'' then Some (Parsed d_nokey) else None),
         MapVirtualKeyA = (\<lambda>vk. Inr 0),
         cost = (\<lambda>x. 0)\<rparr>"



definition P_nokey :: player where
  \<comment> \<open>A freshly constructed player for the recording \<open>d_nokey\<close>.\<close>
  "P_nokey = GameplayPlayer (py ''nokey.json'') 0 1"

section \<open>Verified properties\<close>

lemma py_simps [simp]: "py [] = []" "py (c # cs) = of_char c # py cs"
  by (simp_all add: py_def)

subsection \<open>Capture session: start and stop\<close>

text \<open>
  Claim C9. \<open>start_recording\<close> on a recorder that is recording returns it unchanged (state,
  both sequences, clock snapshot, filename and console alike); \<open>stop_recording\<close> on a
  recorder that is not recording returns it unchanged; \<open>start_recording\<close> on a recorder
  that is not recording empties both event sequences, stores the monotonic clock as
  \<open>start_time\<close>, names the file \<open>replay_<stamp>.json\<close> after the wall clock (two starts get the
  same name only when their stamps agree) and sets \<open>recording\<close>.
\<close>

theorem start_stop_idempotent:
  "(recording R \<longrightarrow> start_recording C R = R) \<and>
   (\<not> recording R \<longrightarrow> stop_recording C R = Inr R) \<and>
   (\<not> recording R \<longrightarrow>
      mouse_events (start_recording C R) = [] \<and>
      keyboard_events (start_recording C R) = [] \<and>
      start_time (start_recording C R) = Some (perf_counter C) \<and>
      filename (start_recording C R) = Some (py ''replay_'' @ now_stamp C @ py ''.json'') \<and>
      recording (start_recording C R) \<and>
      (filename (start_recording C R) = filename (start_recording C' R)
         \<longleftrightarrow> now_stamp C = now_stamp C'))"
  by (simp add: start_recording_def stop_recording_def)

theorem start_stop_idempotent_witness:
  "recording (start_recording C0 recorder_init) \<and> \<not> recording recorder_init \<and>
   start_recording C1 (start_recording C0 recorder_init) = start_recording C0 recorder_init \<and>
   stop_recording C1 recorder_init = Inr recorder_init \<and>
   start_time (start_recording C0 recorder_init) = Some 10 \<and>
   filename (start_recording C0 recorder_init) = Some (py ''replay_2025-01-02_03-04-05.json'') \<and>
   filename (start_recording C0 recorder_init) \<noteq> filename (start_recording C1 recorder_init)"
  using start_stop_idempotent [of "start_recording C0 recorder_init" C1 C1]
        start_stop_idempotent [of recorder_init C0 C1]
        start_stop_idempotent [of recorder_init C1 C1]
  by (simp add: recorder_init_def C0_def C1_def)

subsection \<open>Capture session: pointer motion\<close>

lemma on_mouse_move_step:
  assumes "recording R" "start_time R = Some t0"
  shows "on_mouse_move C R x y =
     Inr (R\<lparr>mouse_events := mouse_events R @ expected_moves t0 (last_mouse_position R) [(C, x, y)],
            last_mouse_position := Some (x, y)\<rparr>)"
  using assms by (auto simp: on_mouse_move_def move_event_def Let_def split: option.splits)

lemma on_mouse_move_repeat:
  assumes "recording R" "start_time R = Some t0"
  shows "\<exists>R1. on_mouse_move C R x y = Inr R1 \<and> on_mouse_move C' R1 x y = Inr R1"
proof -
  let ?R1 = "R\<lparr>mouse_events := mouse_events R @ expected_moves t0 (last_mouse_position R) [(C, x, y)],
            last_mouse_position := Some (x, y)\<rparr>"
  have 1: "on_mouse_move C R x y = Inr ?R1" by (rule on_mouse_move_step [OF assms])
  have "recording ?R1" "start_time ?R1 = Some t0" using assms by simp_all
  from on_mouse_move_step [OF this, of C' x y]
  have "on_mouse_move C' ?R1 x y = Inr ?R1" by simp
  with 1 show ?thesis by blast
qed

lemma deliver_moves_expected:
  assumes "recording R" "start_time R = Some t0"
  shows "\<exists>R'. deliver_moves R ps = Inr R' \<and>
     mouse_events R' = mouse_events R @ expected_moves t0 (last_mouse_position R) ps"
  using assms
proof (induction ps arbitrary: R)
  case Nil
  then show ?case by simp
next
  case (Cons p ps)
  obtain C x y where p: "p = (C, x, y)" by (cases p) auto
  let ?R1 = "R\<lparr>mouse_events := mouse_events R @ expected_moves t0 (last_mouse_position R) [(C, x, y)],
            last_mouse_position := Some (x, y)\<rparr>"
  have s: "on_mouse_move C R x y = Inr ?R1"
    using on_mouse_move_step [OF Cons.prems] .
  have "recording ?R1" "start_time ?R1 = Some t0" using Cons.prems by simp_all
  from Cons.IH [OF this] obtain R' where
    "deliver_moves ?R1 ps = Inr R'"
    "mouse_events R' = mouse_events ?R1 @ expected_moves t0 (last_mouse_position ?R1) ps"
    by blast
  then show ?case using s p by simp
qed

lemma expected_moves_nonzero:
  "e \<in> set (expected_moves t0 prev ps) \<Longrightarrow>
     me_type e = py ''move_relative'' \<and> (me_dx e \<noteq> Some 0 \<or> me_dy e \<noteq> Some 0)"
  by (induction t0 prev ps rule: expected_moves.induct)
     (auto simp: move_event_def MouseEvent0_def split: option.splits if_splits)

text \<open>
  Claim C5. While recording: the first sample after a start (no baseline yet) appends
  nothing and only becomes the baseline; a later sample appends a \<open>move_relative\<close> event
  exactly when its delta from the last position is not \<open>(0, 0)\<close>, and becomes the new
  baseline; the same position delivered twice in a row leaves the recorder as it was after
  the first delivery; and a whole sequence of samples leaves exactly the events of
  \<open>expected_moves\<close>, none of which has a zero delta.
\<close>

theorem zero_delta_suppression:
  assumes "recording R" and "start_time R = Some t0"
  shows "(\<not> recording R0 \<longrightarrow> last_mouse_position (start_recording C R0) = None) \<and>
    (last_mouse_position R = None \<longrightarrow>
       on_mouse_move C R x y = Inr (R\<lparr>last_mouse_position := Some (x, y)\<rparr>)) \<and>
    (last_mouse_position R = Some (lx, ly) \<longrightarrow>
       on_mouse_move C R x y =
         Inr (R\<lparr>mouse_events := mouse_events R @
                  (if x - lx \<noteq> 0 \<or> y - ly \<noteq> 0
                   then [move_event (x - lx) (y - ly) (perf_counter C - t0)] else []),
                last_mouse_position := Some (x, y)\<rparr>)) \<and>
    (\<exists>R1. on_mouse_move C R x y = Inr R1 \<and> on_mouse_move C' R1 x y = Inr R1) \<and>
    (\<exists>R'. deliver_moves R ps = Inr R' \<and>
       mouse_events R' = mouse_events R @ expected_moves t0 (last_mouse_position R) ps \<and>
       (\<forall>e \<in> set (expected_moves t0 (last_mouse_position R) ps).
          me_dx e \<noteq> Some 0 \<or> me_dy e \<noteq> Some 0))"
proof -
  have a: "\<not> recording R0 \<longrightarrow> last_mouse_position (start_recording C R0) = None"
    by (simp add: start_recording_def)
  have b: "last_mouse_position R = None \<longrightarrow>
       on_mouse_move C R x y = Inr (R\<lparr>last_mouse_position := Some (x, y)\<rparr>)"
    using on_mouse_move_step [OF assms, of C x y] by simp
  have c: "last_mouse_position R = Some (lx, ly) \<longrightarrow>
       on_mouse_move C R x y =
         Inr (R\<lparr>mouse_events := mouse_events R @
                  (if x - lx \<noteq> 0 \<or> y - ly \<noteq> 0
                   then [move_event (x - lx) (y - ly) (perf_counter C - t0)] else []),
                last_mouse_position := Some (x, y)\<rparr>)"
    using on_mouse_move_step [OF assms, of C x y] by simp
  have d: "\<exists>R1. on_mouse_move C R x y = Inr R1 \<and> on_mouse_move C' R1 x y = Inr R1"
    by (rule on_mouse_move_repeat [OF assms])
  have e: "\<exists>R'. deliver_moves R ps = Inr R' \<and>
       mouse_events R' = mouse_events R @ expected_moves t0 (last_mouse_position R) ps \<and>
       (\<forall>e \<in> set (expected_moves t0 (last_mouse_position R) ps).
          me_dx e \<noteq> Some 0 \<or> me_dy e \<noteq> Some 0)"
    using deliver_moves_expected [OF assms, of ps] expected_moves_nonzero by blast
  from a b c d e show ?thesis by blast
qed

theorem zero_delta_suppression_witness:
  "recording (start_recording C0 recorder_init) \<and>
   start_time (start_recording C0 recorder_init) = Some 10 \<and>
   (\<exists>R'. deliver_moves (start_recording C0 recorder_init)
            [(C1, 5, 5), (C1, 5, 5), (C1, 6, 5), (C1, 6, 5)] = Inr R' \<and>
          mouse_events R' = [move_event 1 0 2])"
proof -
  have r: "recording (start_recording C0 recorder_init)"
    by (simp add: start_recording_def recorder_init_def)
  have s: "start_time (start_recording C0 recorder_init) = Some 10"
    by (simp add: start_recording_def recorder_init_def C0_def)
  have l: "last_mouse_position (start_recording C0 recorder_init) = None"
    "mouse_events (start_recording C0 recorder_init) = []"
    by (simp_all add: start_recording_def recorder_init_def)
  have pc: "perf_counter C1 = 12" by (simp add: C1_def)
  have e: "expected_moves 10 None [(C1, 5, 5), (C1, 5, 5), (C1, 6, 5), (C1, 6, 5)]
             = [move_event 1 0 2]"
    by (simp add: pc)
  from zero_delta_suppression [OF r s,
        where ps = "[(C1, 5, 5), (C1, 5, 5), (C1, 6, 5), (C1, 6, 5)]"]
  obtain R' where
    "deliver_moves (start_recording C0 recorder_init)
       [(C1, 5, 5), (C1, 5, 5), (C1, 6, 5), (C1, 6, 5)] = Inr R'"
    "mouse_events R' = mouse_events (start_recording C0 recorder_init) @
       expected_moves 10 (last_mouse_position (start_recording C0 recorder_init))
         [(C1, 5, 5), (C1, 5, 5), (C1, 6, 5), (C1, 6, 5)]"
    by blast
  then show ?thesis using r s unfolding l e append_Nil by blast
qed

subsection \<open>Capture session: key transitions\<close>

lemma key_to_string_has_vk: "has_vk k \<Longrightarrow> \<exists>s. key_to_string U k = Inr s"
  by (cases k) auto

lemma on_key_reserved: "reserved (notified_key n) \<Longrightarrow> on_key U R n = Inr R"
  by (cases n) (auto simp: reserved_def on_key_press_def on_key_release_def)

lemma on_key_other:
  assumes "recording R" "start_time R = Some t0"
    and "\<not> reserved (notified_key n)" "has_vk (notified_key n)"
  shows "on_key U R n =
     Inr (R\<lparr>keyboard_events := keyboard_events R @ [expected_key_event U t0 n]\<rparr>)"
proof -
  obtain s where "key_to_string U (notified_key n) = Inr s"
    using key_to_string_has_vk [OF assms(4)] by blast
  then show ?thesis using assms(1-3)
    by (cases n) (auto simp: reserved_def on_key_press_def on_key_release_def)
qed

lemma deliver_keys_filter:
  assumes "recording R" "start_time R = Some t0"
    and "list_all (\<lambda>n. has_vk (notified_key n)) ns"
  shows "\<exists>R'. deliver_keys U R ns = Inr R' \<and>
     keyboard_events R' = keyboard_events R @
        map (expected_key_event U t0) (filter (\<lambda>n. \<not> reserved (notified_key n)) ns)"
  using assms
proof (induction ns arbitrary: R)
  case Nil
  then show ?case by simp
next
  case (Cons n ns)
  show ?case
  proof (cases "reserved (notified_key n)")
    case True
    then have "on_key U R n = Inr R" by (rule on_key_reserved)
    moreover from Cons.IH [of R] Cons.prems obtain R' where
      "deliver_keys U R ns = Inr R'"
      "keyboard_events R' = keyboard_events R @
        map (expected_key_event U t0) (filter (\<lambda>n. \<not> reserved (notified_key n)) ns)"
      by auto
    ultimately show ?thesis using True by simp
  next
    case False
    let ?R1 = "R\<lparr>keyboard_events := keyboard_events R @ [expected_key_event U t0 n]\<rparr>"
    have s: "on_key U R n = Inr ?R1"
      using on_key_other [of R t0 n U] Cons.prems False by simp
    from Cons.IH [of ?R1] Cons.prems obtain R' where
      "deliver_keys U ?R1 ns = Inr R'"
      "keyboard_events R' = keyboard_events ?R1 @
        map (expected_key_event U t0) (filter (\<lambda>n. \<not> reserved (notified_key n)) ns)"
      by auto
    then show ?thesis using s False by simp
  qed
qed

lemma enum_key_name:
  "\<not> reserved (Key nm) \<Longrightarrow>
     key_to_string U (Key nm) \<noteq> Inr (py ''f9'') \<and> key_to_string U (Key nm) \<noteq> Inr (py ''f10'')"
  by (auto simp: reserved_def Key_f9_def Key_f10_def)

text \<open>
  Claim C6. A press or a release of \<open>Key.f9\<close> or \<open>Key.f10\<close> leaves every recorder unchanged,
  whatever its state. Delivered to a recorder that is recording, a sequence of key
  notifications appends exactly one event per notification of a key other than these two,
  in order, and nothing for the two reserved keys; and a member of the \<open>Key\<close> enumeration that is
  not reserved is never written under the name \<open>f9\<close> or \<open>f10\<close>.
\<close>

theorem reserved_hotkeys_filtered:
  assumes "recording R" and "start_time R = Some t0"
    and "list_all (\<lambda>n. has_vk (notified_key n)) ns"
  shows "(reserved k \<longrightarrow> on_key_press U C R0 k = Inr R0 \<and> on_key_release U C R0 k = Inr R0) \<and>
    (\<exists>R'. deliver_keys U R ns = Inr R' \<and>
       keyboard_events R' = keyboard_events R @
         map (expected_key_event U t0) (filter (\<lambda>n. \<not> reserved (notified_key n)) ns)) \<and>
    (\<not> reserved (Key nm) \<longrightarrow>
       key_to_string U (Key nm) \<noteq> Inr (py ''f9'') \<and> key_to_string U (Key nm) \<noteq> Inr (py ''f10''))"
proof -
  have a: "reserved k \<longrightarrow> on_key_press U C R0 k = Inr R0 \<and> on_key_release U C R0 k = Inr R0"
    using on_key_reserved [of "Press C k" U R0] on_key_reserved [of "Release C k" U R0]
    by simp
  from a deliver_keys_filter [OF assms, of U] enum_key_name [of nm U]
  show ?thesis by blast
qed

theorem reserved_hotkeys_filtered_witness:
  "recording (start_recording C0 recorder_init) \<and>
   start_time (start_recording C0 recorder_init) = Some 10 \<and>
   (\<exists>R'. deliver_keys U0 (start_recording C0 recorder_init)
            [Press C1 (KeyCode (Some (py ''a'')) (Some 65)), Press C1 Key_f9,
             Release C1 Key_f10, Release C1 (Key (py ''shift''))] = Inr R' \<and>
          keyboard_events R' =
            [\<lparr>ke_type = py ''press'', ke_key = Some (py ''a''), ke_pressed = Some True,
              ke_timestamp = Some 2\<rparr>,
             \<lparr>ke_type = py ''release'', ke_key = Some (py ''shift_l''), ke_pressed = Some False,
              ke_timestamp = Some 2\<rparr>])"
proof -
  let ?ns = "[Press C1 (KeyCode (Some (py ''a'')) (Some 65)), Press C1 Key_f9,
             Release C1 Key_f10, Release C1 (Key (py ''shift''))]"
  have r: "recording (start_recording C0 recorder_init)"
    by (simp add: start_recording_def recorder_init_def)
  have s: "start_time (start_recording C0 recorder_init) = Some 10"
    by (simp add: start_recording_def recorder_init_def C0_def)
  have v: "list_all (\<lambda>n. has_vk (notified_key n)) ?ns"
    by (simp add: Key_f9_def Key_f10_def)
  have l: "keyboard_events (start_recording C0 recorder_init) = []"
    by (simp add: start_recording_def recorder_init_def)
  have pc: "perf_counter C1 = 12" by (simp add: C1_def)
  have e: "map (expected_key_event U0 10) (filter (\<lambda>n. \<not> reserved (notified_key n)) ?ns) =
            [\<lparr>ke_type = py ''press'', ke_key = Some (py ''a''), ke_pressed = Some True,
              ke_timestamp = Some 2\<rparr>,
             \<lparr>ke_type = py ''release'', ke_key = Some (py ''shift_l''), ke_pressed = Some False,
              ke_timestamp = Some 2\<rparr>]"
    by (simp add: reserved_def Key_f9_def Key_f10_def pc char_is_alpha_def isalpha_def
          isalpha_char_def lower_def is_ascii_def lower_char_def)
  from reserved_hotkeys_filtered [OF r s v, of _ U0]
  obtain R' where
    "deliver_keys U0 (start_recording C0 recorder_init) ?ns = Inr R'"
    "keyboard_events R' = keyboard_events (start_recording C0 recorder_init) @
       map (expected_key_event U0 10) (filter (\<lambda>n. \<not> reserved (notified_key n)) ?ns)"
    by blast
  then show ?thesis using r s unfolding l e append_Nil by blast
qed

subsection \<open>Key canonicalization\<close>

lemma latin_layout_names_nth:
  assumes "k < 26"
  shows "latin_layout_names U ! k = Inr [97 + k]"
proof -
  have "[65..90] ! k = 65 + int k"
    by (rule nth_upto) (use assms in simp)
  moreover have "length [65..90::int] = 26" by simp
  ultimately have "latin_layout_names U ! k =
      key_to_string U (KeyCode (Some [nat (65 + int k) + 32]) (Some (65 + int k)))"
    using assms by (simp only: latin_layout_names_def nth_map)
  also have "\<dots> = Inr [97 + k]"
    using assms
    by (simp add: char_is_alpha_def isalpha_def isalpha_char_def lower_def is_ascii_def
          lower_char_def nat_add_distrib)
  finally show ?thesis .
qed

lemma russian_to_english_letters:
  assumes "192 \<le> v" "v \<le> 217"
  shows "russian_to_english v = Some [nat (v - 95)]"
proof -
  from assms have "v = 192 \<or> v = 193 \<or> v = 194 \<or> v = 195 \<or> v = 196 \<or> v = 197 \<or> v = 198 \<or> v = 199 \<or> v = 200 \<or> v = 201 \<or> v = 202 \<or> v = 203 \<or> v = 204 \<or> v = 205 \<or> v = 206 \<or> v = 207 \<or> v = 208 \<or> v = 209 \<or> v = 210 \<or> v = 211 \<or> v = 212 \<or> v = 213 \<or> v = 214 \<or> v = 215 \<or> v = 216 \<or> v = 217" by presburger
  then show ?thesis
    by (elim disjE) (simp_all add: russian_to_english_def)
qed

lemma russian_to_english_punctuation:
  assumes "218 \<le> v" "v \<le> 223"
  shows "russian_to_english v = Some (punctuation_names ! nat (v - 218))"
proof -
  from assms have "v = 218 \<or> v = 219 \<or> v = 220 \<or> v = 221 \<or> v = 222 \<or> v = 223" by presburger
  then show ?thesis
    by (elim disjE) (simp_all add: russian_to_english_def punctuation_names_def)
qed

lemma russian_to_english_none:
  assumes "224 \<le> v"
  shows "russian_to_english v = None"
  using assms by (simp add: russian_to_english_def)

lemma key_to_string_alternate:
  assumes "isalpha U c" "192 \<le> v" "v \<le> 255"
  shows "key_to_string U (KeyCode (Some c) (Some v)) =
     Inr (case russian_to_english v of Some s \<Rightarrow> s | None \<Rightarrow> keycode_repr (Some v))"
  using assms by (simp add: char_is_alpha_def isalpha_def)

lemma key_to_string_latin:
  assumes "isalpha U c" "65 \<le> v" "v \<le> 90"
  shows "key_to_string U (KeyCode (Some c) (Some v)) = Inr [nat v + 32]"
proof -
  have "65 \<le> nat v" "nat v \<le> 90" using assms(2,3) by linarith+
  then show ?thesis
    using assms by (simp add: char_is_alpha_def isalpha_def lower_def is_ascii_def lower_char_def)
qed

text \<open>
  Claim C7, as the code has it. For a key whose \<open>char\<close> is alphabetic: a code from 192 to 217
  is written as the lowercase Latin letter at the same offset in the alphabet, the very
  name that the Latin-layout key with the code 127 lower (65 to 90) gets; a code from 218 to
  223 is written as one of the punctuation marks \<open>[ ] \ ; ' `\<close>; a code from 224 to 255 has
  no entry in the table and is written as the fallback token \<open>KeyCode(<code>)\<close>.
\<close>

theorem alternate_layout_canonical:
  assumes "isalpha U c"
  shows "(192 \<le> v \<and> v \<le> 217 \<longrightarrow>
            key_to_string U (KeyCode (Some c) (Some v)) = Inr [nat (v - 95)] \<and>
            key_to_string U (KeyCode (Some c) (Some v)) = latin_layout_names U ! nat (v - 192) \<and>
            key_to_string U (KeyCode (Some c) (Some v)) =
              key_to_string U (KeyCode (Some c) (Some (v - 127)))) \<and>
         (218 \<le> v \<and> v \<le> 223 \<longrightarrow>
            key_to_string U (KeyCode (Some c) (Some v)) = Inr (punctuation_names ! nat (v - 218))) \<and>
         (224 \<le> v \<and> v \<le> 255 \<longrightarrow>
            key_to_string U (KeyCode (Some c) (Some v)) = Inr (keycode_repr (Some v)))"
proof -
  have a: "key_to_string U (KeyCode (Some c) (Some v)) = Inr [nat (v - 95)]"
    if "192 \<le> v \<and> v \<le> 217"
    using that key_to_string_alternate [OF assms, of v] russian_to_english_letters [of v]
    by simp
  have b: "latin_layout_names U ! nat (v - 192) = Inr [nat (v - 95)]"
    if "192 \<le> v \<and> v \<le> 217"
  proof -
    have "nat (v - 192) < 26" using that by linarith
    from latin_layout_names_nth [OF this, of U]
    have "latin_layout_names U ! nat (v - 192) = Inr [97 + nat (v - 192)]" .
    moreover have "97 + nat (v - 192) = nat (v - 95)" using that by linarith
    ultimately show ?thesis by simp
  qed
  have c: "key_to_string U (KeyCode (Some c) (Some (v - 127))) = Inr [nat (v - 95)]"
    if "192 \<le> v \<and> v \<le> 217"
  proof -
    have "key_to_string U (KeyCode (Some c) (Some (v - 127))) = Inr [nat (v - 127) + 32]"
      using that by (intro key_to_string_latin [OF assms]) simp_all
    moreover have "nat (v - 127) + 32 = nat (v - 95)" using that by linarith
    ultimately show ?thesis by simp
  qed
  have d: "key_to_string U (KeyCode (Some c) (Some v)) = Inr (punctuation_names ! nat (v - 218))"
    if "218 \<le> v \<and> v \<le> 223"
    using that key_to_string_alternate [OF assms, of v] russian_to_english_punctuation [of v]
    by simp
  have e: "key_to_string U (KeyCode (Some c) (Some v)) = Inr (keycode_repr (Some v))"
    if "224 \<le> v \<and> v \<le> 255"
    using that key_to_string_alternate [OF assms, of v] russian_to_english_none [of v]
    by simp
  from a b c d e show ?thesis by simp
qed

lemma keycode_repr_218: "keycode_repr (Some 218) = py ''KeyCode(218)''"
  by (simp add: keycode_repr_def str_int_def digits.simps)

lemma latin_layout_names_U0:
  "latin_layout_names U0 = map (\<lambda>c. Inr [c]) [97..<123]"
  by (simp add: latin_layout_names_def upto.simps upt_rec char_is_alpha_def isalpha_def isalpha_char_def lower_def is_ascii_def lower_char_def)

text \<open>
  Claim C7 as stated fails at the code 218 with the alphabetic character U+0445: the code
  lies in the range 192 to 255 and has a table entry, yet the name written is \<open>[\<close>, which
  is neither the name of any Latin-layout letter key nor the fallback token.
\<close>

theorem alternate_layout_counterexample:
  "isalpha U0 [1093] \<and> 192 \<le> (218::int) \<and> (218::int) \<le> 255 \<and>
   key_to_string U0 (KeyCode (Some [1093]) (Some 218)) = Inr (py ''['') \<and>
   key_to_string U0 (KeyCode (Some [1093]) (Some 218)) \<notin> set (latin_layout_names U0) \<and>
   russian_to_english 218 \<noteq> None \<and>
   key_to_string U0 (KeyCode (Some [1093]) (Some 218)) \<noteq> Inr (keycode_repr (Some 218))"
proof -
  have a: "isalpha U0 [1093]"
    by (simp add: isalpha_def isalpha_char_def U0_def)
  have k: "key_to_string U0 (KeyCode (Some [1093]) (Some 218)) = Inr (py ''['')"
    using a by (simp add: char_is_alpha_def russian_to_english_def)
  have n: "Inr (py ''['') \<notin> set (latin_layout_names U0)"
    unfolding latin_layout_names_U0 by (simp add: upt_rec)
  have r: "russian_to_english 218 \<noteq> None"
    by (simp add: russian_to_english_def)
  have f: "Inr (py ''['') \<noteq> (Inr (keycode_repr (Some 218)) :: pyexn + pystr)"
    by (simp add: keycode_repr_218)
  from a k n r f show ?thesis by simp
qed

theorem alternate_layout_canonical_witness:
  "isalpha U0 [1092] \<and>
   key_to_string U0 (KeyCode (Some [1092]) (Some 192)) = Inr (py ''a'') \<and>
   key_to_string U0 (KeyCode (Some [1092]) (Some 65)) = Inr (py ''a'') \<and>
   key_to_string U0 (KeyCode (Some [1092]) (Some 219)) = Inr (py '']'') \<and>
   key_to_string U0 (KeyCode (Some [1092]) (Some 230)) = Inr (py ''KeyCode(230)'')"
proof -
  have a: "isalpha U0 [1092]"
    by (simp add: isalpha_def isalpha_char_def U0_def)
  have f: "keycode_repr (Some 230) = py ''KeyCode(230)''"
    by (simp add: keycode_repr_def str_int_def digits.simps)
  have k1: "key_to_string U0 (KeyCode (Some [1092]) (Some 192)) = Inr (py ''a'')"
    using alternate_layout_canonical [OF a, of 192] by (simp del: key_to_string.simps)
  have k2: "key_to_string U0 (KeyCode (Some [1092]) (Some 65)) =
            key_to_string U0 (KeyCode (Some [1092]) (Some 192))"
  proof -
    have "(192::int) \<le> 192 \<and> (192::int) \<le> 217" by simp
    with alternate_layout_canonical [OF a, of 192]
    have "key_to_string U0 (KeyCode (Some [1092]) (Some 192)) =
          key_to_string U0 (KeyCode (Some [1092]) (Some (192 - 127)))"
      by blast
    then show ?thesis by (simp del: key_to_string.simps)
  qed
  have k3: "key_to_string U0 (KeyCode (Some [1092]) (Some 219)) = Inr (py '']'')"
    using alternate_layout_canonical [OF a, of 219]
    by (simp add: punctuation_names_def del: key_to_string.simps)
  have k4: "key_to_string U0 (KeyCode (Some [1092]) (Some 230)) = Inr (py ''KeyCode(230)'')"
    using alternate_layout_canonical [OF a, of 230] by (simp add: f del: key_to_string.simps)
  show ?thesis
    using a k1 k3 k4 unfolding k2 by (simp del: key_to_string.simps)
qed

subsection \<open>Replay: scroll events\<close>

lemma sint_wheel:
  assumes "- (2 ^ 31) \<le> b * 120" "b * 120 < 2 ^ 31"
  shows "sint (word_of_int (b * 120) :: 32 word) = b * 120"
proof -
  have "sint (word_of_int (b * 120) :: 32 word) = signed_take_bit 31 (b * 120)"
    unfolding sint_sbintrunc' by simp
  also have "\<dots> = b * 120"
    using assms by (intro signed_take_bit_int_eq_self) simp_all
  finally show ?thesis .
qed

lemma scroll_JInt:
  "scroll a (JInt b) W = Inr (if b = 0 then W else SendInput (wheel_input b) W)"
  by (simp add: scroll_def wheel_input_def)

lemma handle_scroll_event:
  assumes "ev_fields ev (py ''type'') = Some (JStr (py ''scroll''))"
    and "ev_fields ev (py ''dx'') = Some a"
    and "ev_fields ev (py ''dy'') = Some (JInt b)"
  shows "handle_mouse_event P W ev = (P, if b = 0 then W else SendInput (wheel_input b) W)"
  using assms
  by (simp add: handle_mouse_event_def mouse_event_body_def field_def scroll_JInt)

text \<open>
  Claim C10. A \<open>scroll\<close> event with any \<open>dx\<close> and an integer \<open>dy\<close> is replayed as one wheel
  input whose \<open>mouseData\<close> is \<open>dy * 120\<close> (stored in the 32-bit field, read back unchanged as a
  signed value whenever it fits), the same for every \<open>dx\<close>; when \<open>dy = 0\<close> nothing is sent.
\<close>

theorem scroll_vertical_only:
  assumes "ev_fields ev (py ''type'') = Some (JStr (py ''scroll''))"
    and "ev_fields ev (py ''dx'') = Some a"
    and "ev_fields ev (py ''dy'') = Some (JInt b)"
  shows "handle_mouse_event P W ev = (P, if b = 0 then W else SendInput (wheel_input b) W) \<and>
    scroll a (JInt b) W = scroll a' (JInt b) W \<and>
    (b = 0 \<longrightarrow> sent (snd (handle_mouse_event P W ev)) = sent W) \<and>
    (b \<noteq> 0 \<longrightarrow> sent (snd (handle_mouse_event P W ev)) = sent W @ [wheel_input b]) \<and>
    (- (2 ^ 31) \<le> b * 120 \<and> b * 120 < 2 ^ 31 \<longrightarrow>
       sint (word_of_int (b * 120) :: 32 word) = b * 120)"
  using handle_scroll_event [OF assms, of P W] sint_wheel [of b]
  by (simp add: scroll_JInt SendInput_def)

theorem scroll_vertical_only_witness:
  "handle_mouse_event (GameplayPlayer (py ''r.json'') 0 1) W0
     (mk_event 1 [(py ''type'', JStr (py ''scroll'')), (py ''dx'', JInt 7), (py ''dy'', JInt (- 2))])
   = (GameplayPlayer (py ''r.json'') 0 1, SendInput (wheel_input (- 2)) W0) \<and>
   sint (word_of_int (- 2 * 120) :: 32 word) = - 240 \<and>
   sent (snd (handle_mouse_event (GameplayPlayer (py ''r.json'') 0 1) W0
     (mk_event 1 [(py ''type'', JStr (py ''scroll'')), (py ''dx'', JInt 7), (py ''dy'', JInt 0)])))
   = []"
proof -
  let ?e1 = "mk_event 1 [(py ''type'', JStr (py ''scroll'')), (py ''dx'', JInt 7), (py ''dy'', JInt (- 2))]"
  let ?e2 = "mk_event 1 [(py ''type'', JStr (py ''scroll'')), (py ''dx'', JInt 7), (py ''dy'', JInt 0)]"
  have a: "ev_fields ?e1 (py ''type'') = Some (JStr (py ''scroll''))"
    "ev_fields ?e1 (py ''dx'') = Some (JInt 7)" "ev_fields ?e1 (py ''dy'') = Some (JInt (- 2))"
    by (simp_all add: mk_event_def)
  have b: "ev_fields ?e2 (py ''type'') = Some (JStr (py ''scroll''))"
    "ev_fields ?e2 (py ''dx'') = Some (JInt 7)" "ev_fields ?e2 (py ''dy'') = Some (JInt 0)"
    by (simp_all add: mk_event_def)
  have s: "sent W0 = []" by (simp add: W0_def)
  show ?thesis
    using scroll_vertical_only [OF a, of "GameplayPlayer (py ''r.json'') 0 1" W0]
      scroll_vertical_only [OF b, of "GameplayPlayer (py ''r.json'') 0 1" W0] s
    by simp
qed

subsection \<open>Replay: loading a recording\<close>

lemma those_map:
  "those (map g xs) = (if list_ex (\<lambda>x. g x = None) xs then None else Some (map (\<lambda>x. the (g x)) xs))"
  by (induction xs) (auto split: option.splits)

lemma not_list_ex: "\<not> list_ex Q xs \<Longrightarrow> x \<in> set xs \<Longrightarrow> \<not> Q x"
  by (auto simp: list_ex_iff)

lemma list_ex_tagged:
  "list_ex (\<lambda>x. Q (snd x)) (map (Pair a) xs @ map (Pair b) ys) = list_ex Q (xs @ ys)"
  by (induction xs) (simp_all add: list_ex_iff)

lemma insort_key_map:
  "insort_key k (h x) (map h ys) = map h (insort_key (\<lambda>y. k (h y)) x ys)"
  by (induction ys) auto

lemma sort_key_map:
  "sort_key k (map h xs) = map h (sort_key (\<lambda>y. k (h y)) xs)"
  by (induction xs) (auto simp: insort_key_map)

lemma decorate_sort:
  "map snd (sort_key fst (zip (map f xs) xs)) = sort_key f xs"
proof -
  have "zip (map f xs) xs = map (\<lambda>x. (f x, x)) xs"
    by (induction xs) auto
  then show ?thesis by (simp add: sort_key_map comp_def)
qed

lemma load_replay_events:
  assumes "fs E (replay_file P) = Some (Parsed d)"
    and "rd_mouse_events d = Some ms" "rd_keyboard_events d = Some ks"
    and "\<not> list_ex (\<lambda>e. ev_timestamp e = None) (ms @ ks)"
  shows "events (fst (snd (load_replay E P W))) =
     sort_key timestamp_key (map (Pair Mouse) ms @ map (Pair Keyboard) ks)"
proof -
  let ?evs = "map (Pair Mouse) ms @ map (Pair Keyboard) ks"
  have n: "\<not> list_ex (\<lambda>x. ev_timestamp (snd x) = None) ?evs"
    using assms(4) by (auto simp: list_ex_iff)
  have "the (ev_timestamp (snd x)) = timestamp_key x" if "x \<in> set ?evs" for x
  proof -
    from n that have "ev_timestamp (snd x) \<noteq> None" by (rule not_list_ex)
    then show ?thesis by (auto simp: timestamp_key_def)
  qed
  then have k: "map (\<lambda>x. the (ev_timestamp (snd x))) ?evs = map timestamp_key ?evs"
    by (intro map_cong refl)
  have t: "those (map (\<lambda>x. ev_timestamp (snd x)) ?evs) = Some (map timestamp_key ?evs)"
    using n k by (simp only: those_map if_False)
  show ?thesis
    using assms(1-3) t decorate_sort [of timestamp_key ?evs]
    by (simp add: load_replay_def Let_def split: option.splits)
qed


lemma sorted_wrt_all:
  "(\<And>a b. a \<in> set xs \<Longrightarrow> b \<in> set xs \<Longrightarrow> R a b) \<Longrightarrow> sorted_wrt R xs"
  by (induction xs) auto

lemma sorted_wrt_from_groups:
  assumes "\<And>t. sorted_wrt R (filter (\<lambda>x. g x = t) xs)"
  shows "sorted_wrt (\<lambda>a b. g a = g b \<longrightarrow> R a b) xs"
  using assms
proof (induction xs)
  case Nil
  then show ?case by simp
next
  case (Cons x xs)
  have tl: "sorted_wrt R (filter (\<lambda>y. g y = t) xs)" for t
    using Cons.prems [of t] by (cases "g x = t") simp_all
  have hd: "R x y" if "y \<in> set xs" "g x = g y" for y
    using Cons.prems [of "g x"] that by simp
  from Cons.IH [OF tl] hd show ?case by simp
qed

lemma merged_at_time:
  assumes "\<not> list_ex (\<lambda>e. ev_timestamp e = None) (ms @ ks)"
  shows "filter (\<lambda>x. at_time t (snd x))
           (sort_key timestamp_key (map (Pair Mouse) ms @ map (Pair Keyboard) ks)) =
         map (Pair Mouse) (filter (at_time t) ms) @ map (Pair Keyboard) (filter (at_time t) ks)"
proof -
  let ?evs = "map (Pair Mouse) ms @ map (Pair Keyboard) ks"
  have eq: "at_time t (snd x) \<longleftrightarrow> timestamp_key x = t" if "x \<in> set ?evs" for x
  proof -
    have "\<not> list_ex (\<lambda>x. ev_timestamp (snd x) = None) ?evs"
      using assms by (auto simp: list_ex_iff)
    from this that have "ev_timestamp (snd x) \<noteq> None" by (rule not_list_ex)
    then show ?thesis by (auto simp: at_time_def timestamp_key_def)
  qed
  have "filter (\<lambda>x. at_time t (snd x)) (sort_key timestamp_key ?evs) =
        filter (\<lambda>x. timestamp_key x = t) (sort_key timestamp_key ?evs)"
    by (rule filter_cong [OF refl]) (simp add: eq)
  also have "\<dots> = filter (\<lambda>x. timestamp_key x = t) ?evs"
    by (rule sort_key_stable)
  also have "\<dots> = filter (\<lambda>x. at_time t (snd x)) ?evs"
    by (rule filter_cong [OF refl]) (simp add: eq)
  also have "\<dots> = map (Pair Mouse) (filter (at_time t) ms) @
                    map (Pair Keyboard) (filter (at_time t) ks)"
    by (simp add: filter_map comp_def)
  finally show ?thesis .
qed

lemma merged_pointer_first:
  assumes "\<not> list_ex (\<lambda>e. ev_timestamp e = None) (ms @ ks)"
  shows "sorted_wrt (\<lambda>a b. \<not> key_before_pointer a b)
           (sort_key timestamp_key (map (Pair Mouse) ms @ map (Pair Keyboard) ks))"
proof -
  let ?m = "sort_key timestamp_key (map (Pair Mouse) ms @ map (Pair Keyboard) ks)"
  let ?R = "\<lambda>a b :: source \<times> event_data. \<not> (fst a = Keyboard \<and> fst b = Mouse)"
  have g: "sorted_wrt ?R (filter (\<lambda>x. ev_timestamp (snd x) = u) ?m)" for u
  proof (cases u)
    case None
    have "\<not> list_ex (\<lambda>x. ev_timestamp (snd x) = None) ?m"
      using assms by (auto simp: list_ex_iff)
    then have "filter (\<lambda>x. ev_timestamp (snd x) = None) ?m = []"
      by (auto simp: list_ex_iff filter_empty_conv)
    then show ?thesis using None by simp
  next
    case (Some t)
    have "filter (\<lambda>x. ev_timestamp (snd x) = Some t) ?m =
          map (Pair Mouse) (filter (at_time t) ms) @ map (Pair Keyboard) (filter (at_time t) ks)"
      using merged_at_time [OF assms, of t] by (simp add: at_time_def)
    moreover have "sorted_wrt ?R (map (Pair Mouse) (filter (at_time t) ms) @
                     map (Pair Keyboard) (filter (at_time t) ks))"
      by (auto simp: sorted_wrt_append intro!: sorted_wrt_all)
    ultimately show ?thesis using Some by simp
  qed
  have "sorted_wrt (\<lambda>a b. ev_timestamp (snd a) = ev_timestamp (snd b) \<longrightarrow> ?R a b) ?m"
    by (rule sorted_wrt_from_groups) (rule g)
  then show ?thesis
    by (rule sorted_wrt_mono_rel [rotated]) (auto simp: key_before_pointer_def)
qed

lemma merged_stream:
  assumes "sorted (map timestamp_key (map (Pair Mouse) ms))"
  shows "filter (\<lambda>x. fst x = Mouse)
           (sort_key timestamp_key (map (Pair Mouse) ms @ map (Pair Keyboard) ks)) =
         map (Pair Mouse) ms"
proof -
  have "filter (\<lambda>x. fst x = Mouse) (map (Pair Mouse) ms @ map (Pair Keyboard) ks) =
        map (Pair Mouse) ms"
    by (simp add: filter_map comp_def)
  then show ?thesis using assms by (simp add: filter_sort sort_key_id_if_sorted)
qed

lemma merged_stream_keys:
  assumes "sorted (map timestamp_key (map (Pair Keyboard) ks))"
  shows "filter (\<lambda>x. fst x = Keyboard)
           (sort_key timestamp_key (map (Pair Mouse) ms @ map (Pair Keyboard) ks)) =
         map (Pair Keyboard) ks"
proof -
  have "filter (\<lambda>x. fst x = Keyboard) (map (Pair Mouse) ms @ map (Pair Keyboard) ks) =
        map (Pair Keyboard) ks"
    by (simp add: filter_map comp_def)
  then show ?thesis using assms by (simp add: filter_sort sort_key_id_if_sorted)
qed

text \<open>
  Claim C3. Once \<open>load_replay\<close> has read a recording whose events all carry a timestamp, the
  player's event list is the pointer stream followed by the key stream, sorted stably by
  timestamp: it is ordered by timestamp; it holds exactly the events of the two streams;
  for every time \<open>t\<close> its events at \<open>t\<close> are the pointer events at \<open>t\<close> in their recorded
  order followed by the key events at \<open>t\<close> in theirs, so that no key event comes before a
  pointer event with the same timestamp; and a stream whose timestamps are non-decreasing,
  as a recorded stream's are, keeps its whole order.
\<close>

theorem merge_is_stable_sort:
  assumes "fs E (replay_file P) = Some (Parsed d)"
    and "rd_mouse_events d = Some ms" and "rd_keyboard_events d = Some ks"
    and "\<not> list_ex (\<lambda>e. ev_timestamp e = None) (ms @ ks)"
  shows "sorted (map timestamp_key (events (fst (snd (load_replay E P W))))) \<and>
    mset (events (fst (snd (load_replay E P W)))) =
      mset (map (Pair Mouse) ms) + mset (map (Pair Keyboard) ks) \<and>
    filter (\<lambda>x. at_time t (snd x)) (events (fst (snd (load_replay E P W)))) =
      map (Pair Mouse) (filter (at_time t) ms) @ map (Pair Keyboard) (filter (at_time t) ks) \<and>
    sorted_wrt (\<lambda>a b. \<not> key_before_pointer a b) (events (fst (snd (load_replay E P W)))) \<and>
    (sorted (map timestamp_key (map (Pair Mouse) ms)) \<longrightarrow>
       filter (\<lambda>x. fst x = Mouse) (events (fst (snd (load_replay E P W)))) =
         map (Pair Mouse) ms) \<and>
    (sorted (map timestamp_key (map (Pair Keyboard) ks)) \<longrightarrow>
       filter (\<lambda>x. fst x = Keyboard) (events (fst (snd (load_replay E P W)))) =
         map (Pair Keyboard) ks)"
  unfolding load_replay_events [OF assms]
  using merged_at_time [OF assms(4), of t] merged_pointer_first [OF assms(4)]
    merged_stream [of ms ks] merged_stream_keys [of ks ms]
  by (simp del: map_map)


theorem merge_is_stable_sort_witness:
  "fs E0 (replay_file (GameplayPlayer (py ''r.json'') 0 1)) = Some (Parsed d0) \<and>
   rd_mouse_events d0 = Some [ev_click 1, ev_click 2] \<and>
   rd_keyboard_events d0 = Some [ev_press 1 (py ''a'')] \<and>
   \<not> list_ex (\<lambda>e. ev_timestamp e = None) ([ev_click 1, ev_click 2] @ [ev_press 1 (py ''a'')]) \<and>
   filter (\<lambda>x. at_time 1 (snd x))
     (events (fst (snd (load_replay E0 (GameplayPlayer (py ''r.json'') 0 1) W0)))) =
     [(Mouse, ev_click 1), (Keyboard, ev_press 1 (py ''a''))] \<and>
   filter (\<lambda>x. fst x = Mouse)
     (events (fst (snd (load_replay E0 (GameplayPlayer (py ''r.json'') 0 1) W0)))) =
     [(Mouse, ev_click 1), (Mouse, ev_click 2)]"
proof -
  have a: "fs E0 (replay_file (GameplayPlayer (py ''r.json'') 0 1)) = Some (Parsed d0)"
    by (simp add: E0_def GameplayPlayer_def)
  have b: "rd_mouse_events d0 = Some [ev_click 1, ev_click 2]"
    and c: "rd_keyboard_events d0 = Some [ev_press 1 (py ''a'')]"
    by (simp_all add: d0_def)
  have t: "ev_timestamp (ev_click u) = Some u" "ev_timestamp (ev_press u k) = Some u" for u k
    by (simp_all add: ev_click_def ev_press_def mk_event_def)
  have d: "\<not> list_ex (\<lambda>e. ev_timestamp e = None)
              ([ev_click 1, ev_click 2] @ [ev_press 1 (py ''a'')])"
    by (simp add: t)
  have s: "sorted (map timestamp_key (map (Pair Mouse) [ev_click 1, ev_click 2]))"
    by (simp add: timestamp_key_def t)
  show ?thesis
    using merge_is_stable_sort [OF a b c d, of W0 1] a b c d s
    by (simp add: at_time_def t)
qed

subsection \<open>Replay: failures of loading\<close>

lemma load_replay_missing:
  assumes "fs E (replay_file P) = Some (Parsed d)" and "missing_required d"
  shows "\<exists>k P' W'. load_replay E P W = (Some (KeyError k), P', W') \<and>
     sent W' = sent W \<and> slept W' = slept W \<and> dispatched W' = dispatched W \<and>
     clock W' = clock W"
proof (cases "rd_mouse_events d")
  case None
  then show ?thesis using assms(1) by (simp add: load_replay_def)
next
  case ms: (Some ms)
  show ?thesis
  proof (cases "rd_keyboard_events d")
    case None
    then show ?thesis using assms(1) ms by (simp add: load_replay_def)
  next
    case ks: (Some ks)
    let ?evs = "map (Pair Mouse) ms @ map (Pair Keyboard) ks"
    show ?thesis
    proof (cases "list_ex (\<lambda>e. ev_timestamp e = None) (ms @ ks)")
      case True
      then have "list_ex (\<lambda>x. ev_timestamp (snd x) = None) ?evs"
        using list_ex_tagged [of "\<lambda>e. ev_timestamp e = None" Mouse ms Keyboard ks] by simp
      then have "those (map (\<lambda>x. ev_timestamp (snd x)) ?evs) = None"
        by (simp only: those_map if_True)
      then show ?thesis using assms(1) ms ks by (simp add: load_replay_def)
    next
      case False
      then have "\<not> list_ex (\<lambda>x. ev_timestamp (snd x) = None) ?evs"
        by (auto simp: list_ex_iff)
      then have t: "those (map (\<lambda>x. ev_timestamp (snd x)) ?evs) =
                      Some (map (\<lambda>x. the (ev_timestamp (snd x))) ?evs)"
        by (simp only: those_map if_False)
      from False assms(2) ms ks have "rd_total_duration d = None"
        by (simp add: missing_required_def)
      then show ?thesis using assms(1) ms ks t
        by (simp add: load_replay_def py_print_def Let_def)
    qed
  qed
qed

lemma load_replay_present:
  assumes "fs E (replay_file P) = Some (Parsed d)" and "\<not> missing_required d"
  shows "fst (load_replay E P W) = None"
proof -
  from assms(2) obtain ms ks dur where
    f: "rd_mouse_events d = Some ms" "rd_keyboard_events d = Some ks"
       "rd_total_duration d = Some dur"
    and n: "\<not> list_ex (\<lambda>e. ev_timestamp e = None) (ms @ ks)"
    by (auto simp: missing_required_def split: option.splits)
  let ?evs = "map (Pair Mouse) ms @ map (Pair Keyboard) ks"
  from n have "\<not> list_ex (\<lambda>x. ev_timestamp (snd x) = None) ?evs"
    by (auto simp: list_ex_iff)
  then have t: "those (map (\<lambda>x. ev_timestamp (snd x)) ?evs) =
                  Some (map (\<lambda>x. the (ev_timestamp (snd x))) ?evs)"
    by (simp only: those_map if_False)
  show ?thesis using assms(1) f t
    by (simp add: load_replay_def Let_def split: option.splits)
qed

text \<open>
  Claim C4. \<open>play\<close> on a player that has not loaded yet: when the file does not exist it
  raises \<open>FileNotFoundError\<close> and nothing else happens; when the file cannot be parsed it raises
  the decoder's error and nothing else happens; when the parsed recording lacks one of the
  fields the loader reads (either event list, the timestamp of some event, the total
  duration) it raises \<open>KeyError\<close>, with nothing sent, no sleep and no event dispatched. A
  recording that has all of these fields loads without an error.
\<close>

theorem load_failures_precede_injection:
  assumes "events P = []"
  shows "(fs E (replay_file P) = None \<longrightarrow>
            play U E P W = (Some (FileNotFoundError (replay_file P)), P, W)) \<and>
    (fs E (replay_file P) = Some Unparseable \<longrightarrow>
            play U E P W = (Some JSONDecodeError, P, W)) \<and>
    (fs E (replay_file P) = Some (Parsed d) \<and> missing_required d \<longrightarrow>
       (\<exists>k P' W'. play U E P W = (Some (KeyError k), P', W') \<and>
          sent W' = sent W \<and> slept W' = slept W \<and> dispatched W' = dispatched W \<and>
          clock W' = clock W)) \<and>
    (fs E (replay_file P) = Some (Parsed d) \<and> \<not> missing_required d \<longrightarrow>
       fst (load_replay E P W) = None)"
proof -
  have a: "play U E P W = (Some (FileNotFoundError (replay_file P)), P, W)"
    if "fs E (replay_file P) = None"
    using assms that by (simp add: play_def load_replay_def)
  have b: "play U E P W = (Some JSONDecodeError, P, W)"
    if "fs E (replay_file P) = Some Unparseable"
    using assms that by (simp add: play_def load_replay_def)
  have c: "\<exists>k P' W'. play U E P W = (Some (KeyError k), P', W') \<and>
          sent W' = sent W \<and> slept W' = slept W \<and> dispatched W' = dispatched W \<and>
          clock W' = clock W"
    if "fs E (replay_file P) = Some (Parsed d) \<and> missing_required d"
  proof -
    from that load_replay_missing [of E P d W] obtain k P' W' where
      "load_replay E P W = (Some (KeyError k), P', W')"
      "sent W' = sent W" "slept W' = slept W" "dispatched W' = dispatched W"
      "clock W' = clock W"
      by blast
    then show ?thesis using assms by (simp add: play_def)
  qed
  from a b c load_replay_present [of E P d W] show ?thesis by blast
qed

theorem load_failures_precede_injection_witness:
  "events (GameplayPlayer (py ''gone.json'') 0 1) = [] \<and>
   fs E0 (py ''gone.json'') = None \<and>
   play U0 E0 (GameplayPlayer (py ''gone.json'') 0 1) W0 =
     (Some (FileNotFoundError (py ''gone.json'')), GameplayPlayer (py ''gone.json'') 0 1, W0) \<and>
   fs E0 (py ''bad.json'') = Some Unparseable \<and>
   play U0 E0 (GameplayPlayer (py ''bad.json'') 0 1) W0 =
     (Some JSONDecodeError, GameplayPlayer (py ''bad.json'') 0 1, W0) \<and>
   fs E0 (py ''short.json'') = Some (Parsed d_no_duration) \<and> missing_required d_no_duration \<and>
   (\<exists>k P' W'. play U0 E0 (GameplayPlayer (py ''short.json'') 0 1) W0 = (Some (KeyError k), P', W') \<and>
      sent W' = [])"
proof -
  have e: "events (GameplayPlayer f 0 1) = []" "replay_file (GameplayPlayer f 0 1) = f" for f
    by (simp_all add: GameplayPlayer_def)
  have f: "fs E0 (py ''gone.json'') = None" "fs E0 (py ''bad.json'') = Some Unparseable"
    "fs E0 (py ''short.json'') = Some (Parsed d_no_duration)"
    by (simp_all add: E0_def)
  have m: "missing_required d_no_duration"
    by (simp add: missing_required_def d_no_duration_def d0_def)
  have s: "sent W0 = []" by (simp add: W0_def)
  show ?thesis
    using load_failures_precede_injection [OF e(1), of E0 "py ''gone.json''" U0 W0 d_no_duration]
      load_failures_precede_injection [OF e(1), of E0 "py ''bad.json''" U0 W0 d_no_duration]
      load_failures_precede_injection [OF e(1), of E0 "py ''short.json''" U0 W0 d_no_duration]
      f m s
    unfolding e by auto
qed

subsection \<open>Replay: the carry accumulator\<close>


















subsection \<open>Replay: cadence\<close>

lemma frame_simps [simp]:
  "clock (SendInput i W) = clock W" "slept (SendInput i W) = slept W"
  "dispatched (SendInput i W) = dispatched W"
  "clock (py_print m W) = clock W" "slept (py_print m W) = slept W"
  "dispatched (py_print m W) = dispatched W"
  by (simp_all add: SendInput_def py_print_def)



















subsection \<open>Replay: resilience\<close>

lemma scan_codes_unknown: "scan_codes (py ''unknown_token_zz'') = None"
  by (simp add: scan_codes_def)

lemma unknown_key_is_skipped:
  "handle_keyboard_event U E W (ev_press t (py ''unknown_token_zz'')) =
     (None, py_print (MsgUnknownKey (py ''unknown_token_zz'')) W)"
  using scan_codes_unknown
  by (simp add: handle_keyboard_event_def keyboard_event_body_def field_def ev_press_def
        mk_event_def press_key_def get_scan_code_def startswith_def lower_def is_ascii_def
        lower_char_def)

lemma keyless_event_raises:
  "handle_keyboard_event U E W (ev_nokey t) = (Some (KeyError (py ''key'')), W)"
  by (simp add: handle_keyboard_event_def keyboard_event_body_def field_def ev_nokey_def
        mk_event_def)

lemma load_replay_loaded:
  assumes "fs E (replay_file P) = Some (Parsed d)" and "\<not> missing_required d"
    and "rd_mouse_events d = Some ms" "rd_keyboard_events d = Some ks"
  shows "\<exists>W1. load_replay E P W =
       (None, P\<lparr>events := sort_key timestamp_key (map (Pair Mouse) ms @ map (Pair Keyboard) ks)\<rparr>,
        W1) \<and>
     sent W1 = sent W \<and> clock W1 = clock W \<and> slept W1 = slept W \<and>
     dispatched W1 = dispatched W"
proof -
  from assms(2-4) obtain dur where
    f: "rd_total_duration d = Some dur"
    and n: "\<not> list_ex (\<lambda>e. ev_timestamp e = None) (ms @ ks)"
    by (auto simp: missing_required_def)
  let ?evs = "map (Pair Mouse) ms @ map (Pair Keyboard) ks"
  have e: "events (fst (snd (load_replay E P W))) = sort_key timestamp_key ?evs"
    by (rule load_replay_events [OF assms(1,3,4) n])
  have n': "\<not> list_ex (\<lambda>x. ev_timestamp (snd x) = None) ?evs"
    using n list_ex_tagged [of "\<lambda>e. ev_timestamp e = None" Mouse ms Keyboard ks] by simp
  have t: "those (map (\<lambda>x. ev_timestamp (snd x)) ?evs) =
             Some (map (\<lambda>x. the (ev_timestamp (snd x))) ?evs)"
    using n' by (simp only: those_map if_False)
  show ?thesis using assms(1,3,4) f t e
    by (auto simp: load_replay_def Let_def py_print_def split: option.splits)
qed

text \<open>
  Claim C1 at a failing input. The recording \<open>d_nokey\<close> holds one key event at time \<open>0\<close>
  whose dictionary has no \<open>key\<close> entry and one click at time \<open>1\<close>. \<open>play\<close> loads it, hands the
  key event to its handler, and ends with the \<open>KeyError\<close> that the handler's own \<open>except\<close> clause
  raises while formatting its message: the click is never dispatched and nothing is sent.
\<close>

theorem keyless_key_event_aborts_replay:
  "\<exists>P' W'. play U0 E_nokey P_nokey W0 = (Some (KeyError (py ''key'')), P', W') \<and>
     events P' = [(Keyboard, ev_nokey 0), (Mouse, ev_click 1)] \<and>
     dispatched W' = [(Keyboard, ev_nokey 0)] \<and> sent W' = []"
proof -
  have f: "fs E_nokey (replay_file P_nokey) = Some (Parsed d_nokey)"
    by (simp add: E_nokey_def P_nokey_def GameplayPlayer_def)
  have t: "ev_timestamp (ev_click u) = Some u" "ev_timestamp (ev_nokey u) = Some u" for u
    by (simp_all add: ev_click_def ev_nokey_def mk_event_def)
  have m: "\<not> missing_required d_nokey"
    by (simp add: missing_required_def d_nokey_def t)
  have d: "rd_mouse_events d_nokey = Some [ev_click 1]"
    "rd_keyboard_events d_nokey = Some [ev_nokey 0]"
    by (simp_all add: d_nokey_def)
  have s: "sort_key timestamp_key (map (Pair Mouse) [ev_click 1] @ map (Pair Keyboard) [ev_nokey 0])
           = [(Keyboard, ev_nokey 0), (Mouse, ev_click 1)]"
    by (simp add: timestamp_key_def t)
  from load_replay_loaded [OF f m d, of W0] obtain W1 where
    l: "load_replay E_nokey P_nokey W0 =
          (None, P_nokey\<lparr>events := [(Keyboard, ev_nokey 0), (Mouse, ev_click 1)]\<rparr>, W1)"
       "sent W1 = sent W0" "dispatched W1 = dispatched W0"
    unfolding s by blast
  have p: "events P_nokey = []" "cooldown P_nokey = 0"
    by (simp_all add: P_nokey_def GameplayPlayer_def)
  have w: "sent W0 = []" "dispatched W0 = []" by (simp_all add: W0_def)
  show ?thesis
    using l(2,3) w
    by (simp add: play_def l(1) p dispatch_def keyless_event_raises Let_def t)
qed

end
